theory Spec2Isabelle
  imports Complex_Main "HOL-Library.Sublist"
begin

section \<open>Python values, errors and console effects\<close>

text \<open>
  The two renderer plugins (\<^verbatim>\<open>renderers/Cycles.py\<close>, \<^verbatim>\<open>renderers/Povray.py\<close>) are Python.
  A raised exception is a value \<open>Inl e\<close>; what a function writes to the FreeCAD console
  or hands to \<^verbatim>\<open>os.system\<close> is a list of effects, in program order. Python floats are
  idealised as real numbers throughout, so rounding, overflow and signed zeros are
  outside this development.
\<close>

datatype error =
    KeyError | AttributeError | ValueError | TypeError
  | AssertionError | IndexError | ZeroDivisionError | OverflowError | FreeCADError

datatype effect =
    PrintError string | PrintWarning string | PrintMessage string | System string

text \<open>A number as the plugins receive it: \<^verbatim>\<open>None\<close>, an int or a float.\<close>

datatype pyval = PyNone | PyInt int | PyFloat real

text \<open>
  \<^verbatim>\<open>float(v)\<close>. An int converts when, rounded to a double, it is in the range of the
  doubles, that is when its absolute value is below \<open>2\<^sup>1\<^sup>0\<^sup>2\<^sup>4 - 2\<^sup>9\<^sup>7\<^sup>0\<close>; a larger one raises
  \<^verbatim>\<open>OverflowError\<close>.
\<close>

fun py_float :: "pyval \<Rightarrow> error + real" where
  "py_float PyNone = Inl TypeError"
| "py_float (PyInt i) =
     (if \<bar>i\<bar> < 2 ^ 1024 - 2 ^ 970 then Inr (of_int i) else Inl OverflowError)"
| "py_float (PyFloat x) = Inr x"

text \<open>\<^verbatim>\<open>a / b\<close> on floats, \<^verbatim>\<open>math.asin\<close> and \<^verbatim>\<open>math.atan2\<close>.\<close>

definition py_div :: "real \<Rightarrow> real \<Rightarrow> error + real" where
  "py_div a b = (if b = 0 then Inl ZeroDivisionError else Inr (a / b))"

definition asin :: "real \<Rightarrow> error + real" where
  "asin a = (if - 1 \<le> a \<and> a \<le> 1 then Inr (arcsin a) else Inl ValueError)"

definition atan2 :: "real \<Rightarrow> real \<Rightarrow> real" where
  "atan2 b a =
     (if 0 < a then arctan (b / a)
      else if a < 0 then (if 0 \<le> b then arctan (b / a) + pi else arctan (b / a) - pi)
      else if 0 < b then pi / 2
      else if b < 0 then - (pi / 2)
      else 0)"

text \<open>The apostrophe, which cannot end a string literal.\<close>

definition q :: string where
  \<open>q = [CHR 0x27]\<close>

text \<open>\<^verbatim>\<open>str(n)\<close> and \<^verbatim>\<open>"{}".format(n)\<close> for a Python int: decimal digits, a minus sign first.\<close>

definition digit_char :: "nat \<Rightarrow> char" where
  "digit_char n = ''0123456789'' ! n"

fun str_nat :: "nat \<Rightarrow> string" where
  "str_nat n = (if n < 10 then [digit_char n] else str_nat (n div 10) @ [digit_char (n mod 10)])"

declare str_nat.simps [simp del]

definition str_int :: "int \<Rightarrow> string" where
  "str_int i = (if i < 0 then ''-'' @ str_nat (nat (- i)) else str_nat (nat i))"

text \<open>\<^verbatim>\<open>pat in s\<close> on strings, and the number of places where \<open>pat\<close> occurs in \<open>s\<close>.\<close>

primrec is_in :: "string \<Rightarrow> string \<Rightarrow> bool" where
  "is_in pat [] = (pat = [])"
| "is_in pat (c # cs) = (prefix pat (c # cs) \<or> is_in pat cs)"

primrec count_occ :: "string \<Rightarrow> string \<Rightarrow> nat" where
  "count_occ pat [] = 0"
| "count_occ pat (c # cs) = (if prefix pat (c # cs) then 1 else 0) + count_occ pat cs"

section \<open>Emitted text\<close>

text \<open>
  Every \<^verbatim>\<open>write_*\<close> function fills a template with \<^verbatim>\<open>str.format\<close>. The result is kept
  as the template's pieces in order: its literal text, and for each replacement field
  \<^verbatim>\<open>{key}\<close> the key as the template writes it with the value put there, a string
  (\<open>Str\<close>) or a number (\<open>Val\<close>). How Python prints a float is not modelled. A string
  that is itself formatted text is inlined as its pieces.
\<close>

datatype piece = Lit string | Str string string | Val string pyval

type_synonym fragment = "piece list"

text \<open>\<^verbatim>\<open>sep.join(parts)\<close>.\<close>

fun str_join :: "string \<Rightarrow> fragment list \<Rightarrow> fragment" where
  "str_join sep [] = []"
| "str_join sep [x] = x"
| "str_join sep (x # y # ys) = x @ [Lit sep] @ str_join sep (y # ys)"

text \<open>
  \<^verbatim>\<open>str.format\<close> leaves a text without braces as it is; the numbers it has already
  printed contain none.
\<close>

fun brace_free :: "fragment \<Rightarrow> bool" where
  "brace_free [] = True"
| "brace_free (Lit s # f) = (CHR ''{'' \<notin> set s \<and> CHR ''}'' \<notin> set s \<and> brace_free f)"
| "brace_free (Str k s # f) = (CHR ''{'' \<notin> set s \<and> CHR ''}'' \<notin> set s \<and> brace_free f)"
| "brace_free (Val k v # f) = brace_free f"

text \<open>The values put into the replacement fields with key \<open>k\<close>, in order of appearance.\<close>

fun values_of :: "string \<Rightarrow> fragment \<Rightarrow> pyval list" where
  "values_of k [] = []"
| "values_of k (Val k' v # f) = (if k' = k then v # values_of k f else values_of k f)"
| "values_of k (_ # f) = values_of k f"

text \<open>The coordinates printed from vector attributes \<^verbatim>\<open>{0.x}\<close>, \<^verbatim>\<open>{0.y}\<close>, \<^verbatim>\<open>{0.z}\<close>, in order.\<close>

fun coords :: "fragment \<Rightarrow> pyval list" where
  "coords [] = []"
| "coords (Val k v # f) = (if k \<in> set [''0.x'', ''0.y'', ''0.z''] then v # coords f else coords f)"
| "coords (_ # f) = coords f"

text \<open>The integers put into replacement fields, in order of appearance.\<close>

fun ints_of :: "fragment \<Rightarrow> int list" where
  "ints_of [] = []"
| "ints_of (Val k (PyInt i) # f) = i # ints_of f"
| "ints_of (_ # f) = ints_of f"

section \<open>Data model\<close>

text \<open>A colour has three channels, read as \<^verbatim>\<open>c.r\<close> or \<^verbatim>\<open>c[0]\<close>.\<close>

datatype rgb = RGB (chan_r: pyval) (chan_g: pyval) (chan_b: pyval)

text \<open>\<^verbatim>\<open>App.Vector\<close> values, and the vector operations of FreeCAD the plugins call.\<close>

datatype vec = Vector (vx: real) (vy: real) (vz: real)

definition Length :: "vec \<Rightarrow> real" where
  "Length v = sqrt ((vx v)\<^sup>2 + (vy v)\<^sup>2 + (vz v)\<^sup>2)"

definition cross :: "vec \<Rightarrow> vec \<Rightarrow> vec" where
  "cross a b = Vector (vy a * vz b - vz a * vy b) (vz a * vx b - vx a * vz b) (vx a * vy b - vy a * vx b)"

text \<open>
  A placement has a base point and a rotation; the rotation is known by its method
  \<^verbatim>\<open>multVec\<close>. \<^verbatim>\<open>Placement.multVec\<close> rotates, then translates by the base.
\<close>

record placement =
  Base :: vec
  Rotation :: "vec \<Rightarrow> vec"

definition multVec :: "placement \<Rightarrow> vec \<Rightarrow> vec" where
  "multVec pos v =
     (let w = Rotation pos v in Vector (vx w + vx (Base pos)) (vy w + vy (Base pos)) (vz w + vz (Base pos)))"

text \<open>
  Vectors are mutable objects, and two methods used by the plugins change the vector
  they are called on. A heap maps references to vectors; \<open>next_ref\<close> is the first unused
  reference.
  \<^item> \<^verbatim>\<open>App.Vector(v)\<close> makes a new vector with the coordinates of \<open>v\<close>;
  \<^item> \<^verbatim>\<open>v.normalize()\<close> scales \<open>v\<close> itself to length one and returns \<open>v\<close>; the null vector
    is refused;
  \<^item> \<^verbatim>\<open>v.Length = d\<close> scales \<open>v\<close> itself to length \<open>d\<close>; the null vector is refused.
\<close>

record heap =
  cells :: "nat \<Rightarrow> vec"
  next_ref :: nat

definition Vector_copy :: "heap \<Rightarrow> nat \<Rightarrow> nat \<times> heap" where
  "Vector_copy h a =
     (next_ref h, h\<lparr>cells := (cells h)(next_ref h := cells h a), next_ref := Suc (next_ref h)\<rparr>)"

definition normalize :: "heap \<Rightarrow> nat \<Rightarrow> (error + nat) \<times> heap" where
  "normalize h a =
     (let v = cells h a; l = Length v
      in if l = 0 then (Inl FreeCADError, h)
         else (Inr a, h\<lparr>cells := (cells h)(a := Vector (vx v / l) (vy v / l) (vz v / l))\<rparr>))"

definition set_Length :: "heap \<Rightarrow> nat \<Rightarrow> real \<Rightarrow> (error + unit) \<times> heap" where
  "set_Length h a d =
     (let v = cells h a; l = Length v
      in if l = 0 then (Inl FreeCADError, h)
         else (Inr (), h\<lparr>cells := (cells h)(a := Vector (vx v * (d / l)) (vy v * (d / l)) (vz v * (d / l)))\<rparr>))"

text \<open>
  A mesh: \<^verbatim>\<open>mesh.Topology\<close> is the pair of the point list and the facet list, a facet
  being three point indices; \<^verbatim>\<open>mesh.getPointNormals()\<close> is the list of normals FreeCAD
  computes.
\<close>

record mesh =
  Topology :: "vec list \<times> (int \<times> int \<times> int) list"
  getPointNormals :: "vec list"

text \<open>
  A material carries its shading-model tag, its default colour and, under the attribute
  named after its shading model, the parameters of that model. An attribute that is not
  set is \<open>None\<close>: reading it raises \<^verbatim>\<open>AttributeError\<close>.
\<close>

record passthrough_obj =
  renderer :: string
  passthrough_string :: string

record glass_obj =
  glass_color :: rgb
  ior :: pyval

record diffuse_obj =
  diffuse_color :: rgb

record mixed_obj =
  mixed_glass :: glass_obj
  mixed_diffuse :: diffuse_obj
  transparency :: pyval

record disney_obj =
  basecolor :: rgb
  subsurface :: pyval
  metallic :: pyval
  specular :: pyval
  speculartint :: pyval
  roughness :: pyval
  anisotropic :: pyval
  sheen :: pyval
  sheentint :: pyval
  clearcoat :: pyval
  clearcoatgloss :: pyval

record material =
  shadertype :: string
  default_color :: rgb
  passthrough :: "passthrough_obj option"
  glass :: "glass_obj option"
  disney :: "disney_obj option"
  diffuse :: "diffuse_obj option"
  mixed :: "mixed_obj option"

text \<open>
  The fallback emitter reads \<^verbatim>\<open>.default_color\<close> from whatever object it is given. A
  material has that attribute, a colour has not.
\<close>

datatype pyobj = MaterialObj material | ColorObj rgb

fun attr_default_color :: "pyobj \<Rightarrow> error + rgb" where
  "attr_default_color (MaterialObj m) = Inr (default_color m)"
| "attr_default_color (ColorObj c) = Inl AttributeError"

section \<open>Cycles: the write functions\<close>

subsection \<open>Templates\<close>

definition Cycles_point :: "vec \<Rightarrow> fragment" where
  \<open>Cycles_point p =
     [Val ''0.x'' (PyFloat (vx p)), Lit '' '', Val ''0.y'' (PyFloat (vy p)), Lit '' '',
      Val ''0.z'' (PyFloat (vz p))]\<close>

definition Cycles_face :: "int \<times> int \<times> int \<Rightarrow> fragment" where
  "Cycles_face v =
     (case v of (a, b, c) \<Rightarrow> [Val '''' (PyInt a), Lit '' '', Val '''' (PyInt b), Lit '' '', Val '''' (PyInt c)])"

definition Cycles_snippet_obj :: "string \<Rightarrow> fragment \<Rightarrow> fragment \<Rightarrow> fragment \<Rightarrow> fragment" where
  \<open>Cycles_snippet_obj n p i v =
     [Lit ''\<newline>'', Lit ''    <state shader="'', Str ''n'' n, Lit ''">\<newline>'',
      Lit ''        <mesh P="'']
     @ p
     @ [Lit ''"\<newline>'', Lit ''              nverts="'']
     @ i
     @ [Lit ''"\<newline>'', Lit ''              verts="'']
     @ v
     @ [Lit ''"/>\<newline>'', Lit ''    </state>\<newline>'']\<close>

definition Cycles_arealight_snippet1 :: "string \<Rightarrow> rgb \<Rightarrow> vec \<Rightarrow> real \<Rightarrow> vec \<Rightarrow> vec \<Rightarrow> real \<Rightarrow> real \<Rightarrow> vec \<Rightarrow> fragment" where
  \<open>Cycles_arealight_snippet1 n c p s u v a b d =
     [Lit ''\<newline>'', Lit (''    <!-- Generated by FreeCAD - Area light '' @ q), Str ''n'' n,
      Lit (q @ '' (transparent) -->\<newline>''), Lit ''    <shader name="'', Str ''n'' n,
      Lit ''_shader">\<newline>'', Lit ''        <emission name="'', Str ''n'' n,
      Lit ''_emit"\<newline>'', Lit ''                  color="'', Val ''c[0]'' (chan_r c),
      Lit '' '', Val ''c[1]'' (chan_g c), Lit '' '', Val ''c[2]'' (chan_b c), Lit ''"\<newline>'',
      Lit ''                  strength="'', Val ''s'' (PyFloat s), Lit ''"/>\<newline>'',
      Lit ''        <connect from="'', Str ''n'' n, Lit ''_emit emission"\<newline>'',
      Lit ''                 to="output surface"/>\<newline>'', Lit ''    </shader>\<newline>'',
      Lit ''    <state shader="'', Str ''n'' n, Lit ''_shader">\<newline>'',
      Lit ''        <light type="area"\<newline>'', Lit ''               co="'',
      Val ''p.x'' (PyFloat (vx p)), Lit '' '', Val ''p.y'' (PyFloat (vy p)), Lit '' '',
      Val ''p.z'' (PyFloat (vz p)), Lit ''"\<newline>'',
      Lit ''               strength="1 1 1"\<newline>'', Lit ''               axisu="'',
      Val ''u.x'' (PyFloat (vx u)), Lit '' '', Val ''u.y'' (PyFloat (vy u)), Lit '' '',
      Val ''u.z'' (PyFloat (vz u)), Lit ''"\<newline>'', Lit ''               axisv="'',
      Val ''v.x'' (PyFloat (vx v)), Lit '' '', Val ''v.y'' (PyFloat (vy v)), Lit '' '',
      Val ''v.z'' (PyFloat (vz v)), Lit ''"\<newline>'', Lit ''               sizeu="'',
      Val ''a'' (PyFloat a), Lit ''"\<newline>'', Lit ''               sizev="'',
      Val ''b'' (PyFloat b), Lit ''"\<newline>'', Lit ''               size="1"\<newline>'',
      Lit ''               dir="'', Val ''d.x'' (PyFloat (vx d)), Lit '' '',
      Val ''d.y'' (PyFloat (vy d)), Lit '' '', Val ''d.z'' (PyFloat (vz d)), Lit ''"\<newline>'',
      Lit ''               use_mis = "true"\<newline>'', Lit ''        />\<newline>'',
      Lit ''    </state>\<newline>'']\<close>

definition Cycles_arealight_snippet2 :: "string \<Rightarrow> rgb \<Rightarrow> real \<Rightarrow> fragment \<Rightarrow> fragment" where
  \<open>Cycles_arealight_snippet2 n c s P =
     [Lit ''\<newline>'', Lit (''    <!-- Generated by FreeCAD - Area light '' @ q), Str ''n'' n,
      Lit (q @ '' (opaque) -->\<newline>''), Lit ''    <shader name="'', Str ''n'' n,
      Lit ''_shader" use_mis="true">\<newline>'', Lit ''        <emission name="'', Str ''n'' n,
      Lit ''_emit"\<newline>'', Lit ''                  color="'', Val ''c[0]'' (chan_r c),
      Lit '' '', Val ''c[1]'' (chan_g c), Lit '' '', Val ''c[2]'' (chan_b c), Lit ''"\<newline>'',
      Lit ''                  strength="'', Val ''s'' (PyFloat s), Lit ''"/>\<newline>'',
      Lit ''        <connect from="'', Str ''n'' n, Lit ''_emit emission"\<newline>'',
      Lit ''                 to="output surface"/>\<newline>'', Lit ''    </shader>\<newline>'',
      Lit ''    <state shader="'', Str ''n'' n, Lit ''_shader">\<newline>'',
      Lit ''        <mesh P="'']
     @ P
     @ [Lit ''"\<newline>'', Lit ''              nverts="4"\<newline>'',
      Lit ''              verts="0 1 2 3"\<newline>'',
      Lit ''              use_mis="true"\<newline>'', Lit ''              />\<newline>'',
      Lit ''    </state>\<newline>'']\<close>

definition Cycles_sunsky_snippet :: "string \<Rightarrow> pyval \<Rightarrow> pyval \<Rightarrow> real \<Rightarrow> real \<Rightarrow> fragment" where
  \<open>Cycles_sunsky_snippet n t g e r =
     [Lit ''\<newline>'', Lit (''    <!-- Generated by FreeCAD - Sun_sky light '' @ q),
      Str ''n'' n, Lit (q @ '' -->\<newline>''), Lit ''    <background name="'', Str ''n'' n,
      Lit ''_bg">\<newline>'', Lit ''          <background name="'', Str ''n'' n,
      Lit ''_bg" strength="0.3"/>\<newline>'', Lit ''          <sky_texture name="'', Str ''n'' n,
      Lit ''_tex"\<newline>'',
      Lit ''                       sky_type="nishita_improved"\<newline>'',
      Lit ''                       turbidity="'', Val ''t'' t, Lit ''"\<newline>'',
      Lit ''                       ground_albedo="'', Val ''g'' g, Lit ''"\<newline>'',
      Lit ''                       sun_disc="true"\<newline>'',
      Lit ''                       sun_elevation="'', Val ''e'' (PyFloat e), Lit ''"\<newline>'',
      Lit ''                       sun_rotation="'', Val ''r'' (PyFloat r), Lit ''"\<newline>'',
      Lit ''                       />\<newline>'', Lit ''          <connect from="'', Str ''n'' n,
      Lit ''_tex color" to="'', Str ''n'' n, Lit ''_bg color" />\<newline>'',
      Lit ''          <connect from="'', Str ''n'' n,
      Lit ''_bg background" to="output surface" />\<newline>'',
      Lit ''    </background>\<newline>'']\<close>

definition Cycles_glass_snippet :: "string \<Rightarrow> rgb \<Rightarrow> pyval \<Rightarrow> fragment" where
  \<open>Cycles_glass_snippet n c i =
     [Lit ''\<newline>'', Lit (''    <!-- Generated by FreeCAD - Object '' @ q), Str ''n'' n,
      Lit (q @ '' -->\<newline>''), Lit ''    <shader name="'', Str ''n'' n, Lit ''">\<newline>'',
      Lit ''        <glass_bsdf name="'', Str ''n'' n, Lit ''_bsdf" IOR="'', Val ''i'' i,
      Lit ''" color="'', Val ''c.r'' (chan_r c), Lit '', '', Val ''c.g'' (chan_g c), Lit '', '',
      Val ''c.b'' (chan_b c), Lit ''"/>\<newline>'', Lit ''        <connect from="'', Str ''n'' n,
      Lit ''_bsdf bsdf" to="output surface"/>\<newline>'', Lit ''    </shader>'']\<close>

definition Cycles_disney_snippet :: "string \<Rightarrow> disney_obj \<Rightarrow> real \<Rightarrow> fragment" where
  \<open>Cycles_disney_snippet n d cr =
     [Lit ''\<newline>'', Lit (''    <!-- Generated by FreeCAD - Object '' @ q), Str ''0'' n,
      Lit (q @ '' -->\<newline>''), Lit ''    <shader name="'', Str ''0'' n, Lit ''">\<newline>'',
      Lit ''        <principled_bsdf name="'', Str ''0'' n, Lit ''_bsdf"\<newline>'',
      Lit ''                         base_color = "'', Val ''1.r'' (chan_r (basecolor d)),
      Lit '' '', Val ''1.g'' (chan_g (basecolor d)), Lit '' '',
      Val ''1.b'' (chan_b (basecolor d)), Lit ''"\<newline>'',
      Lit ''                         subsurface = "'', Val ''2'' (subsurface d),
      Lit ''"\<newline>'', Lit ''                         metallic = "'', Val ''3'' (metallic d),
      Lit ''"\<newline>'', Lit ''                         specular = "'', Val ''4'' (specular d),
      Lit ''"\<newline>'', Lit ''                         specular_tint = "'',
      Val ''5'' (speculartint d), Lit ''"\<newline>'',
      Lit ''                         roughness = "'', Val ''6'' (roughness d),
      Lit ''"\<newline>'', Lit ''                         anisotropic = "'',
      Val ''7'' (anisotropic d), Lit ''"\<newline>'', Lit ''                         sheen = "'',
      Val ''8'' (sheen d), Lit ''"\<newline>'', Lit ''                         sheen_tint = "'',
      Val ''9'' (sheentint d), Lit ''"\<newline>'',
      Lit ''                         clearcoat = "'', Val ''10'' (clearcoat d),
      Lit ''"\<newline>'', Lit ''                         clearcoat_roughness = "'',
      Val ''11'' (PyFloat cr), Lit ''" />\<newline>'', Lit ''        <connect from="'',
      Str ''0'' n, Lit ''_bsdf bsdf" to="output surface"/>\<newline>'', Lit ''    </shader>'']\<close>

definition Cycles_diffuse_snippet :: "string \<Rightarrow> rgb \<Rightarrow> fragment" where
  \<open>Cycles_diffuse_snippet n c =
     [Lit ''\<newline>'', Lit (''    <!-- Generated by FreeCAD - Object '' @ q), Str ''n'' n,
      Lit (q @ '' -->\<newline>''), Lit ''    <shader name="'', Str ''n'' n, Lit ''">\<newline>'',
      Lit ''        <diffuse_bsdf name="'', Str ''n'' n, Lit ''_bsdf" color="'',
      Val ''c.r'' (chan_r c), Lit '', '', Val ''c.g'' (chan_g c), Lit '', '',
      Val ''c.b'' (chan_b c), Lit ''"/>\<newline>'', Lit ''        <connect from="'', Str ''n'' n,
      Lit ''_bsdf bsdf" to="output surface"/>\<newline>'', Lit ''    </shader>'']\<close>

definition Cycles_mixed_snippet :: "string \<Rightarrow> rgb \<Rightarrow> pyval \<Rightarrow> rgb \<Rightarrow> pyval \<Rightarrow> fragment" where
  \<open>Cycles_mixed_snippet n c i k r =
     [Lit ''\<newline>'', Lit (''    <!-- Generated by FreeCAD - Object '' @ q), Str ''n'' n,
      Lit (q @ '' -->\<newline>''), Lit ''    <shader name="'', Str ''n'' n, Lit ''">\<newline>'',
      Lit ''        <glass_bsdf name="'', Str ''n'' n, Lit ''_glass_bsdf"\<newline>'',
      Lit ''                    IOR="'', Val ''i'' i, Lit ''" color="'', Val ''c.r'' (chan_r c),
      Lit '', '', Val ''c.g'' (chan_g c), Lit '', '', Val ''c.b'' (chan_b c),
      Lit ''"/>\<newline>'', Lit ''        <diffuse_bsdf name="'', Str ''n'' n,
      Lit ''_diffuse_bsdf" color="'', Val ''k.r'' (chan_r k), Lit '', '', Val ''k.g'' (chan_g k),
      Lit '', '', Val ''k.b'' (chan_b k), Lit ''"/>\<newline>'',
      Lit ''        <mix_closure name="'', Str ''n'' n, Lit ''_closure" fac="'', Val ''r'' r,
      Lit ''" />\<newline>'', Lit ''        <connect from="'', Str ''n'' n,
      Lit ''_diffuse_bsdf bsdf" to="'', Str ''n'' n, Lit ''_closure closure1"/>\<newline>'',
      Lit ''        <connect from="'', Str ''n'' n, Lit ''_glass_bsdf bsdf" to="'', Str ''n'' n,
      Lit ''_closure closure2"/>\<newline>'', Lit ''        <connect from="'', Str ''n'' n,
      Lit ''_closure closure" to="output surface"/>\<newline>'', Lit ''    </shader>'']\<close>

definition Cycles_fallback_snippet :: "string \<Rightarrow> pyval \<Rightarrow> pyval \<Rightarrow> pyval \<Rightarrow> fragment" where
  \<open>Cycles_fallback_snippet n r g b =
     [Lit ''\<newline>'', Lit (''    <!-- Generated by FreeCAD - Object '' @ q), Str ''n'' n,
      Lit (q @ '' - FALLBACK -->\<newline>''), Lit ''    <shader name="'', Str ''n'' n,
      Lit ''">\<newline>'', Lit ''        <diffuse_bsdf name="'', Str ''n'' n,
      Lit ''_bsdf" color="'', Val ''r'' r, Lit '', '', Val ''g'' g, Lit '', '', Val ''b'' b,
      Lit ''"/>\<newline>'', Lit ''        <connect from="'', Str ''n'' n,
      Lit ''_bsdf bsdf" to="output surface"/>\<newline>'', Lit ''    </shader>'']\<close>

subsection \<open>Material implementation\<close>

text \<open>
  \<^verbatim>\<open>_write_material_passthrough\<close>. What \<^verbatim>\<open>indent(s, "    ").format(n=name, c=color)\<close>
  makes of a template \<open>s\<close> written by the user is the Python library's business and is
  a parameter \<open>fmt\<close> here; it may raise.
\<close>

type_synonym format_fn = "string \<Rightarrow> string \<Rightarrow> rgb \<Rightarrow> error + fragment"

definition Cycles_write_material_passthrough :: "format_fn \<Rightarrow> string \<Rightarrow> material \<Rightarrow> error + fragment" where
  "Cycles_write_material_passthrough fmt name material =
     (case passthrough material of
        None \<Rightarrow> Inl AttributeError
      | Some p \<Rightarrow>
          if renderer p \<noteq> ''Cycles'' then Inl AssertionError
          else fmt (passthrough_string p) name (default_color material))"

definition Cycles_write_material_glass :: "string \<Rightarrow> material \<Rightarrow> error + fragment" where
  "Cycles_write_material_glass name material =
     (case glass material of
        None \<Rightarrow> Inl AttributeError
      | Some g \<Rightarrow> Inr (Cycles_glass_snippet name (glass_color g) (ior g)))"

definition Cycles_write_material_disney :: "string \<Rightarrow> material \<Rightarrow> error + fragment" where
  "Cycles_write_material_disney name material =
     (case disney material of
        None \<Rightarrow> Inl AttributeError
      | Some d \<Rightarrow>
          (case py_float (clearcoatgloss d) of
             Inl e \<Rightarrow> Inl e
           | Inr gloss \<Rightarrow> Inr (Cycles_disney_snippet name d (1 - gloss))))"

definition Cycles_write_material_diffuse :: "string \<Rightarrow> material \<Rightarrow> error + fragment" where
  "Cycles_write_material_diffuse name material =
     (case diffuse material of
        None \<Rightarrow> Inl AttributeError
      | Some d \<Rightarrow> Inr (Cycles_diffuse_snippet name (diffuse_color d)))"

definition Cycles_write_material_mixed :: "string \<Rightarrow> material \<Rightarrow> error + fragment" where
  "Cycles_write_material_mixed name material =
     (case mixed material of
        None \<Rightarrow> Inl AttributeError
      | Some m \<Rightarrow>
          Inr (Cycles_mixed_snippet name (glass_color (mixed_glass m)) (ior (mixed_glass m))
                 (diffuse_color (mixed_diffuse m)) (transparency m)))"

text \<open>
  \<^verbatim>\<open>_write_material_fallback(name, material)\<close>. The body of its \<^verbatim>\<open>try\<close> reads the three
  channels of \<^verbatim>\<open>material.default_color\<close>, converts them with \<^verbatim>\<open>float\<close> and asserts that
  they lie in \<open>[0, 1]\<close>; the handler catches the four exceptions listed and takes white.
\<close>

definition fallback_try :: "pyobj \<Rightarrow> error + pyval \<times> pyval \<times> pyval" where
  "fallback_try material =
     (case attr_default_color material of Inl e \<Rightarrow> Inl e | Inr c \<Rightarrow>
        (case py_float (chan_r c) of Inl e \<Rightarrow> Inl e | Inr red \<Rightarrow>
           (case py_float (chan_g c) of Inl e \<Rightarrow> Inl e | Inr grn \<Rightarrow>
              (case py_float (chan_b c) of Inl e \<Rightarrow> Inl e | Inr blu \<Rightarrow>
                 if (0 \<le> red \<and> red \<le> 1) \<and> (0 \<le> grn \<and> grn \<le> 1) \<and> (0 \<le> blu \<and> blu \<le> 1)
                 then Inr (PyFloat red, PyFloat grn, PyFloat blu)
                 else Inl AssertionError))))"

definition Cycles_write_material_fallback :: "string \<Rightarrow> pyobj \<Rightarrow> error + fragment" where
  "Cycles_write_material_fallback name material =
     (case fallback_try material of
        Inr (red, grn, blu) \<Rightarrow> Inr (Cycles_fallback_snippet name red grn blu)
      | Inl e \<Rightarrow>
          if e \<in> set [AttributeError, ValueError, TypeError, AssertionError]
          then Inr (Cycles_fallback_snippet name (PyInt 1) (PyInt 1) (PyInt 1))
          else Inl e)"

text \<open>The table \<^verbatim>\<open>MATERIALS\<close>, from shading-model tags to emitters.\<close>

definition MATERIALS :: "format_fn \<Rightarrow> (string \<times> (string \<Rightarrow> material \<Rightarrow> error + fragment)) list" where
  "MATERIALS fmt =
     [(''Passthrough'', Cycles_write_material_passthrough fmt),
      (''Glass'', Cycles_write_material_glass),
      (''Disney'', Cycles_write_material_disney),
      (''Diffuse'', Cycles_write_material_diffuse),
      (''Mixed'', Cycles_write_material_mixed)]"

definition msg_unknown :: "string \<Rightarrow> string \<Rightarrow> string" where
  \<open>msg_unknown name tag =
     q @ name @ q @ '' - Material '' @ q @ tag @ q @
     '' unknown by renderer, using fallback material\<newline>''\<close>

text \<open>
  \<^verbatim>\<open>_write_material(name, material)\<close>. The \<^verbatim>\<open>except KeyError\<close> clause catches a missing
  key of \<^verbatim>\<open>MATERIALS\<close> and equally a \<^verbatim>\<open>KeyError\<close> raised inside the emitter called; any
  other exception of the emitter passes on to the caller. The handler hands
  \<^verbatim>\<open>material.default_color\<close>, a colour, to the fallback emitter.
\<close>

definition Cycles_write_material :: "format_fn \<Rightarrow> string \<Rightarrow> material \<Rightarrow> effect list \<times> (error + fragment)" where
  "Cycles_write_material fmt name material =
     (let handler =
            ([PrintWarning (msg_unknown name (shadertype material))],
             Cycles_write_material_fallback name (ColorObj (default_color material)))
      in case map_of (MATERIALS fmt) (shadertype material) of
           None \<Rightarrow> handler
         | Some emitter \<Rightarrow>
             (case emitter name material of
                Inl e \<Rightarrow> if e = KeyError then handler else ([], Inl e)
              | Inr snippet_mat \<Rightarrow> ([], Inr snippet_mat)))"

subsection \<open>Objects and lights\<close>

text \<open>
  \<^verbatim>\<open>write_object(name, mesh, material)\<close> formats the concatenation of the material
  snippet, which is formatted text already, and the object template. Formatting leaves
  a material snippet without braces unchanged; what it does to one with braces is the
  parameter \<open>refmt\<close>.
\<close>

type_synonym reformat_fn = "fragment \<Rightarrow> string \<Rightarrow> fragment \<Rightarrow> fragment \<Rightarrow> fragment \<Rightarrow> error + fragment"

definition Cycles_write_object ::
  "format_fn \<Rightarrow> reformat_fn \<Rightarrow> string \<Rightarrow> mesh \<Rightarrow> material \<Rightarrow> effect list \<times> (error + fragment)" where
  "Cycles_write_object fmt refmt name mesh material =
     (case Cycles_write_material fmt name material of
        (warn, Inl e) \<Rightarrow> (warn, Inl e)
      | (warn, Inr snippet_mat) \<Rightarrow>
          (let points = map Cycles_point (fst (Topology mesh));
               verts = map Cycles_face (snd (Topology mesh));
               nverts = replicate (length verts) [Lit ''3''];
               p = str_join ''  '' points;
               i = str_join ''  '' nverts;
               v = str_join ''  '' verts
           in case (if brace_free snippet_mat then Inr snippet_mat
                    else refmt snippet_mat name p i v) of
                Inl e \<Rightarrow> (warn, Inl e)
              | Inr mat \<Rightarrow> (warn, Inr (mat @ Cycles_snippet_obj name p i v))))"

text \<open>\<^verbatim>\<open>write_arealight(name, pos, size_u, size_v, color, power, transparent)\<close>.\<close>

definition Cycles_write_arealight ::
  "string \<Rightarrow> placement \<Rightarrow> real \<Rightarrow> real \<Rightarrow> rgb \<Rightarrow> real \<Rightarrow> bool \<Rightarrow> error + fragment" where
  "Cycles_write_arealight name pos size_u size_v color power' transparent =
     (let rot = Rotation pos;
          axis1 = rot (Vector 1 0 0);
          axis2 = rot (Vector 0 1 0);
          direction = cross axis1 axis2;
          points = [Vector (- size_u / 2) (- size_v / 2) 0,
                    Vector (size_u / 2) (- size_v / 2) 0,
                    Vector (size_u / 2) (size_v / 2) 0,
                    Vector (- size_u / 2) (size_v / 2) 0];
          points = map (multVec pos) points;
          points = map Cycles_point points;
          points = str_join ''  '' points
      in case (if transparent then Inr power' else py_div power' (size_u * size_v)) of
           Inl e \<Rightarrow> Inl e
         | Inr strength \<Rightarrow>
             Inr (if transparent
                  then Cycles_arealight_snippet1 name color (Base pos) (strength * 100)
                         axis1 axis2 size_u size_v direction
                  else Cycles_arealight_snippet2 name color (strength * 100) points))"

text \<open>
  \<^verbatim>\<open>write_sunskylight(name, direction, distance, turbidity, albedo)\<close>; \<open>direction\<close> is a
  reference into the heap. The function \<^verbatim>\<open>sunlight\<close> of \<^verbatim>\<open>renderers.utils.sunlight\<close> is a
  parameter: its result is not used, an exception it raises passes on.
\<close>

definition Cycles_write_sunskylight ::
  "(real \<Rightarrow> pyval \<Rightarrow> error + 's) \<Rightarrow> heap \<Rightarrow> string \<Rightarrow> nat \<Rightarrow> real \<Rightarrow> pyval \<Rightarrow> pyval
     \<Rightarrow> (error + fragment) \<times> heap" where
  "Cycles_write_sunskylight sunlight h name direction distance turbidity albedo =
     (if Length (cells h direction) = 0 then (Inl AssertionError, h)
      else
        (case Vector_copy h direction of (dir, h) \<Rightarrow>
           (case normalize h dir of
              (Inl e, h) \<Rightarrow> (Inl e, h)
            | (Inr _, h) \<Rightarrow>
                (let d = cells h dir
                 in case py_div (vz d) (sqrt ((vx d)\<^sup>2 + (vy d)\<^sup>2 + (vz d)\<^sup>2)) of
                      Inl e \<Rightarrow> (Inl e, h)
                    | Inr a \<Rightarrow>
                        (case asin a of
                           Inl e \<Rightarrow> (Inl e, h)
                         | Inr theta \<Rightarrow>
                             (let phi = atan2 (vx d) (vy d)
                              in case sunlight theta turbidity of
                                   Inl e \<Rightarrow> (Inl e, h)
                                 | Inr sun \<Rightarrow>
                                     (Inr (Cycles_sunsky_snippet name turbidity albedo theta phi), h)))))))"

section \<open>POV-Ray: the write functions\<close>

text \<open>The templates are given after \<^verbatim>\<open>dedent\<close>, which removes their common margin.\<close>

definition Povray_vector :: "vec \<Rightarrow> fragment" where
  \<open>Povray_vector v =
     [Lit ''<'', Val ''0.x'' (PyFloat (vx v)), Lit '','', Val ''0.z'' (PyFloat (vz v)), Lit '','',
      Val ''0.y'' (PyFloat (vy v)), Lit ''>'']\<close>

definition Povray_face :: "int \<times> int \<times> int \<Rightarrow> fragment" where
  "Povray_face i =
     (case i of (a, b, c) \<Rightarrow>
        [Lit ''<'', Val '''' (PyInt a), Lit '','', Val '''' (PyInt b), Lit '','', Val '''' (PyInt c), Lit ''>''])"

definition Povray_snippet_obj :: "string \<Rightarrow> nat \<Rightarrow> fragment \<Rightarrow> nat \<Rightarrow> fragment \<Rightarrow> nat \<Rightarrow> fragment \<Rightarrow> fragment \<Rightarrow> fragment" where
  \<open>Povray_snippet_obj name len_vertices vertices len_normals normals len_indices indices color =
     [Lit ''\<newline>'', Lit ''// Generated by FreeCAD (http://www.freecadweb.org/)\<newline>'',
      Lit (''// Declares object '' @ q), Str ''name'' name, Lit (q @ ''\<newline>''),
      Lit ''#declare '', Str ''name'' name, Lit '' = mesh2 {'', Lit ''\<newline>'',
      Lit ''    vertex_vectors {'', Lit ''\<newline>'', Lit ''        '',
      Val ''len_vertices'' (PyInt (int len_vertices)), Lit '',\<newline>'', Lit ''        '']
     @ vertices
     @ [Lit ''\<newline>'', Lit ''    }'', Lit ''\<newline>'', Lit ''    normal_vectors {'',
      Lit ''\<newline>'', Lit ''        '', Val ''len_normals'' (PyInt (int len_normals)),
      Lit '',\<newline>'', Lit ''        '']
     @ normals
     @ [Lit ''\<newline>'', Lit ''    }'', Lit ''\<newline>'', Lit ''    face_indices {'',
      Lit ''\<newline>'', Lit ''        '', Val ''len_indices'' (PyInt (int len_indices)),
      Lit '',\<newline>'', Lit ''        '']
     @ indices
     @ [Lit ''\<newline>'', Lit ''    }'', Lit ''\<newline>'', Lit ''}'', Lit ''  // '',
      Str ''name'' name, Lit ''\<newline>'', Lit ''\<newline>'', Lit ''// Instance to render '',
      Str ''name'' name, Lit ''\<newline>'', Lit ''object {'', Lit '' '', Str ''name'' name,
      Lit ''\<newline>'', Lit ''    texture {'', Lit ''\<newline>'', Lit ''        pigment {'',
      Lit ''\<newline>'', Lit ''            color rgb '']
     @ color
     @ [Lit ''\<newline>'', Lit ''        }'', Lit ''\<newline>'', Lit ''        finish {'',
      Lit ''StdFinish}'', Lit ''\<newline>'', Lit ''    }'', Lit ''\<newline>'', Lit ''}'',
      Lit ''  // '', Str ''name'' name, Lit ''\<newline>'']\<close>

definition Povray_sunsky_snippet :: "string \<Rightarrow> vec \<Rightarrow> fragment" where
  \<open>Povray_sunsky_snippet n loc =
     [Lit ''\<newline>'', Lit ''// Generated by FreeCAD (http://www.freecadweb.org/)\<newline>'',
      Lit ''// Declares sunsky light '', Str ''n'' n, Lit ''\<newline>'',
      Lit ''// sky ------------------------------------\<newline>'', Lit ''sky_sphere{'',
      Lit ''\<newline>'', Lit ''    pigment{'', Lit '' gradient y\<newline>'',
      Lit ''       color_map{'', Lit ''\<newline>'',
      Lit ''           [0.0 color rgb<1,1,1> ]\<newline>'',
      Lit ''           [0.8 color rgb<0.18,0.28,0.75>]\<newline>'',
      Lit ''           [1.0 color rgb<0.75,0.75,0.75>]}'', Lit ''\<newline>'',
      Lit ''           //[1.0 color rgb<0.15,0.28,0.75>]}'', Lit ''\<newline>'',
      Lit ''           scale 2\<newline>'', Lit ''           translate -1\<newline>'',
      Lit ''    }'', Lit '' // end pigment\<newline>'', Lit ''}'',
      Lit '' // end sky_sphere\<newline>'',
      Lit ''// sun -----------------------------------\<newline>'', Lit ''global_settings {'',
      Lit '' ambient_light rgb<1, 1, 1> }'', Lit ''\<newline>'', Lit ''light_source {'',
      Lit ''\<newline>'', Lit ''    <'', Val ''o.x'' (PyFloat (vx loc)), Lit '','',
      Val ''o.z'' (PyFloat (vz loc)), Lit '','', Val ''o.y'' (PyFloat (vy loc)),
      Lit ''>\<newline>'', Lit ''    color rgb <1,1,1>\<newline>'',
      Lit ''    parallel\<newline>'', Lit ''    point_at <0,0,0>\<newline>'',
      Lit ''    adaptive 1\<newline>'', Lit ''}'', Lit ''\<newline>'']\<close>

text \<open>\<^verbatim>\<open>write_object(name, mesh, color, alpha)\<close>.\<close>

definition Povray_write_object :: "string \<Rightarrow> mesh \<Rightarrow> rgb \<Rightarrow> pyval \<Rightarrow> fragment" where
  "Povray_write_object name mesh color alpha =
     (let colo = [Lit ''<'', Val '''' (chan_r color), Lit '','', Val '''' (chan_g color), Lit '','',
                  Val '''' (chan_b color), Lit ''>''];
          vrts = map Povray_vector (fst (Topology mesh));
          nrms = map Povray_vector (getPointNormals mesh);
          inds = map Povray_face (snd (Topology mesh))
      in Povray_snippet_obj name
           (length vrts) (str_join ''\<newline>        '' vrts)
           (length nrms) (str_join ''\<newline>        '' nrms)
           (length inds) (str_join ''\<newline>        '' inds)
           colo)"

text \<open>
  \<^verbatim>\<open>write_sunskylight(name, direction, distance, turbidity)\<close>; \<open>direction\<close> is a reference
  into the heap, and \<open>location\<close> is the reference \<^verbatim>\<open>direction.normalize()\<close> returns.
\<close>

definition Povray_write_sunskylight ::
  "heap \<Rightarrow> string \<Rightarrow> nat \<Rightarrow> real \<Rightarrow> pyval \<Rightarrow> (error + fragment) \<times> heap" where
  "Povray_write_sunskylight h name direction distance turbidity =
     (case normalize h direction of
        (Inl e, h) \<Rightarrow> (Inl e, h)
      | (Inr location, h) \<Rightarrow>
          (case set_Length h location distance of
             (Inl e, h) \<Rightarrow> (Inl e, h)
           | (Inr _, h) \<Rightarrow> (Inr (Povray_sunsky_snippet name (cells h location)), h)))"

section \<open>Render invocation\<close>

text \<open>
  The preference store \<^verbatim>\<open>App.ParamGet(...)\<close> is a string-keyed map;
  \<^verbatim>\<open>GetString(key, default)\<close> returns the default for an absent key.
\<close>

type_synonym params = "string \<Rightarrow> string option"

definition GetString :: "params \<Rightarrow> string \<Rightarrow> string \<Rightarrow> string" where
  "GetString p k d = (case p k of Some v \<Rightarrow> v | None \<Rightarrow> d)"

record project =
  PageResult :: string

definition msg_no_executable :: string where
  \<open>msg_no_executable =
     ''Unable to locate renderer executable. '' @
     ''Please set the correct path in '' @
     ''Edit -> Preferences -> Render\<newline>''\<close>

subsection \<open>Cycles\<close>

text \<open>
  \<^verbatim>\<open>Cycles.render(project, prefix, external, output, width, height)\<close>. The result is the
  returned string and the effects performed. The parameter \<open>prefix\<close> is rebound from
  the preference store in the second statement.
\<close>

definition Cycles_render ::
  "params \<Rightarrow> project \<Rightarrow> string \<Rightarrow> bool \<Rightarrow> string \<Rightarrow> int \<Rightarrow> int \<Rightarrow> string \<times> effect list" where
  "Cycles_render params project prefix' external output width height =
    (let prefix' = GetString params ''Prefix'' '''';
         prefix' = (if prefix' \<noteq> [] then prefix' @ '' '' else prefix');
         rpath = GetString params ''CyclesPath'' '''';
         args = GetString params ''CyclesParameters'' '''';
         args = args @ '' --output '' @ output;
         args = (if \<not> external then args @ '' --background'' else args)
     in if rpath = [] then ('''', [PrintError msg_no_executable])
        else
          (let args = args @ '' --width '' @ str_int width;
               args = args @ '' --height '' @ str_int height;
               cmd = prefix' @ rpath @ '' '' @ args @ '' '' @ PageResult project
           in (output, [PrintMessage (cmd @ ''\<newline>''), System cmd])))"

subsection \<open>POV-Ray\<close>

text \<open>
  \<^verbatim>\<open>re.sub(r"\+X[0-9]+", repl, s)\<close> for a flag letter \<open>X\<close>: scanning from the left, every
  \<open>+X\<close> followed by at least one ASCII digit is replaced, with all the digits that
  follow it, by \<open>repl\<close>; the scan continues after the match. The replacement strings used
  below contain no backslash, so they are inserted as they are.
\<close>

definition is_digit :: "char \<Rightarrow> bool" where
  "is_digit c = (c \<in> set ''0123456789'')"

definition flag_here :: "char \<Rightarrow> string \<Rightarrow> bool" where
  "flag_here X cs = (case cs of [] \<Rightarrow> False | [x] \<Rightarrow> False | x # d # _ \<Rightarrow> x = X \<and> is_digit d)"

function re_sub_flag :: "char \<Rightarrow> string \<Rightarrow> string \<Rightarrow> string" where
  "re_sub_flag X repl [] = []"
| "re_sub_flag X repl (c # cs) =
     (if c = CHR ''+'' \<and> flag_here X cs
      then repl @ re_sub_flag X repl (dropWhile is_digit (tl cs))
      else c # re_sub_flag X repl cs)"
  by pat_completeness auto
termination
proof (relation "measure (\<lambda>(X, repl, s). length s)")
  fix X :: char and repl :: string and c :: char and cs :: string
  have "length (dropWhile is_digit (tl cs)) \<le> length (tl cs)"
    by (rule length_dropWhile_le)
  then show "((X, repl, dropWhile is_digit (tl cs)), (X, repl, c # cs))
              \<in> measure (\<lambda>(X, repl, s). length s)"
    by simp
qed simp_all

text \<open>
  The argument string built by \<^verbatim>\<open>Povray.render\<close> between reading
  \<^verbatim>\<open>PovRayParameters\<close> and assembling the command.
\<close>

definition Povray_args :: "string \<Rightarrow> string \<Rightarrow> int \<Rightarrow> int \<Rightarrow> string" where
  "Povray_args stored output width height =
    (let args = stored;
         args = (if args \<noteq> [] then args @ '' '' else args);
         args = (if is_in ''+W'' args
                 then re_sub_flag (CHR ''W'') (''+W'' @ str_int width) args
                 else args @ ''+W'' @ str_int width @ '' '');
         args = (if is_in ''+H'' args
                 then re_sub_flag (CHR ''H'') (''+H'' @ str_int height) args
                 else args @ ''+H'' @ str_int height @ '' '');
         args = (if output \<noteq> [] then args @ ''+O'' @ output @ '' '' else args)
     in args)"

text \<open>
  \<^verbatim>\<open>Povray.render\<close>. \<open>splitext\<close> stands for \<^verbatim>\<open>os.path.splitext(p)[0]\<close> of the Python
  standard library, which depends on the platform.
\<close>

definition Povray_render ::
  "(string \<Rightarrow> string) \<Rightarrow> params \<Rightarrow> project \<Rightarrow> string \<Rightarrow> bool \<Rightarrow> string \<Rightarrow> int \<Rightarrow> int
     \<Rightarrow> string \<times> effect list" where
  "Povray_render splitext params project prefix' external output width height =
    (let prefix' = GetString params ''Prefix'' '''';
         prefix' = (if prefix' \<noteq> [] then prefix' @ '' '' else prefix');
         rpath = GetString params ''PovRayPath'' ''''
     in if rpath = [] then ('''', [PrintError msg_no_executable])
        else
          (let args = Povray_args (GetString params ''PovRayParameters'' '''') output width height;
               cmd = prefix' @ rpath @ '' '' @ args @ PageResult project
           in (if output \<noteq> [] then output else splitext (PageResult project) @ ''.png'',
               [PrintMessage (''Renderer command: '' @ cmd @ ''\<newline>''), System cmd])))"

text \<open>The external processes a run has started.\<close>

fun spawned :: "effect list \<Rightarrow> string list" where
  "spawned [] = []"
| "spawned (System c # es) = c # spawned es"
| "spawned (_ # es) = spawned es"

text \<open>
  A stored argument string as a text followed by flags: each flag is a letter after
  \<open>+\<close>, a value and the text up to the next flag. \<open>flagged\<close> spells the string out,
  \<open>set_value\<close> gives the flags of one letter a new value. The string is \<open>well_flagged\<close>
  when its flags are width and height flags with a value of digits, no text holds
  \<open>+W\<close> or \<open>+H\<close>, and no text after a flag starts with a digit; \<open>proper_flags\<close> says of
  a string that every \<open>+W\<close> and every \<open>+H\<close> in it is followed by a digit.
\<close>

definition starts_with_digit :: "string \<Rightarrow> bool" where
  "starts_with_digit s = (case s of [] \<Rightarrow> False | c # _ \<Rightarrow> is_digit c)"

definition flag_text :: "char \<times> string \<times> string \<Rightarrow> string" where
  "flag_text f = (case f of (k, d, s) \<Rightarrow> CHR ''+'' # k # d @ s)"

definition flagged :: "string \<Rightarrow> (char \<times> string \<times> string) list \<Rightarrow> string" where
  "flagged head fs = head @ concat (map flag_text fs)"

definition set_value :: "char \<Rightarrow> string \<Rightarrow> char \<times> string \<times> string \<Rightarrow> char \<times> string \<times> string" where
  "set_value X v f = (case f of (k, d, s) \<Rightarrow> (k, if k = X then v else d, s))"

definition well_flagged :: "string \<Rightarrow> (char \<times> string \<times> string) list \<Rightarrow> bool" where
  "well_flagged head fs =
     (\<not> is_in ''+W'' head \<and> \<not> is_in ''+H'' head
      \<and> list_all (\<lambda>(k, d, s). k \<in> set ''WH'' \<and> d \<noteq> [] \<and> list_all is_digit d
                     \<and> \<not> is_in ''+W'' s \<and> \<not> is_in ''+H'' s \<and> \<not> starts_with_digit s) fs)"

fun proper_flags :: "string \<Rightarrow> bool" where
  "proper_flags [] = True"
| "proper_flags (c # cs) =
     ((if c = CHR ''+'' \<and> prefix ''W'' cs then flag_here (CHR ''W'') cs else True)
      \<and> (if c = CHR ''+'' \<and> prefix ''H'' cs then flag_here (CHR ''H'') cs else True)
      \<and> proper_flags cs)"

text \<open>
  For the substitution of one flag letter \<open>X\<close>: what a flag must satisfy (\<open>flag_ok\<close>),
  and a text that cannot continue a match begun before it (\<open>inert\<close>).
\<close>

definition flag_ok :: "char \<Rightarrow> char \<times> string \<times> string \<Rightarrow> bool" where
  "flag_ok X f =
     (case f of (k, d, s) \<Rightarrow>
        k \<noteq> CHR ''+'' \<and> CHR ''+'' \<notin> set d \<and> \<not> is_in [CHR ''+'', X] s
        \<and> (if k = X then d \<noteq> [] \<and> list_all is_digit d \<and> \<not> starts_with_digit s else True))"

definition inert :: "char \<Rightarrow> string \<Rightarrow> bool" where
  "inert X t = (case t of [] \<Rightarrow> True | c # _ \<Rightarrow> c \<noteq> X \<and> \<not> is_digit c)"

section \<open>Properties of render invocation\<close>

subsection \<open>The substitution on flagged argument strings\<close>

lemma spawned_print [simp]:
  "spawned (PrintError s # es) = spawned es"
  "spawned (PrintMessage s # es) = spawned es"
  "spawned (PrintWarning s # es) = spawned es"
  by simp_all

lemma count_occ_flag_Cons:
  "count_occ [a, b] (c # cs) = (if c = a \<and> cs \<noteq> [] \<and> hd cs = b then 1 else 0) + count_occ [a, b] cs"
  by (cases cs) auto

lemma count_occ_flag_append:
  "count_occ [a, b] (xs @ ys) =
     count_occ [a, b] xs + count_occ [a, b] ys
     + (if xs \<noteq> [] \<and> last xs = a \<and> ys \<noteq> [] \<and> hd ys = b then 1 else 0)"
proof (induction xs)
  case Nil
  show ?case by simp
next
  case (Cons x xs)
  show ?case
  proof (cases xs)
    case Nil
    then show ?thesis by (cases ys) auto
  next
    case (Cons x' xs')
    with Cons.IH show ?thesis by auto
  qed
qed

lemma count_occ_none: "a \<notin> set xs \<Longrightarrow> count_occ [a, b] xs = 0"
  by (induction xs) auto

lemma is_in_count: "is_in [a, b] s \<longleftrightarrow> 0 < count_occ [a, b] s"
  by (induction s) auto

lemma plus_not_digit: "is_digit c \<Longrightarrow> c \<noteq> CHR ''+''"
  by (auto simp: is_digit_def)

lemma digit_char_is_digit: "n < 10 \<Longrightarrow> is_digit (digit_char n)"
proof -
  assume "n < 10"
  then have "n < length ''0123456789''" by simp
  then have "''0123456789'' ! n \<in> set ''0123456789''" by (rule nth_mem)
  then show ?thesis unfolding is_digit_def digit_char_def .
qed

lemma str_nat_digits: "str_nat n \<noteq> [] \<and> (\<forall>c \<in> set (str_nat n). is_digit c)"
proof (induction n rule: str_nat.induct)
  case (1 n)
  show ?case
  proof (cases "n < 10")
    case True
    then show ?thesis by (subst (1 2) str_nat.simps) (simp add: digit_char_is_digit)
  next
    case False
    with 1 show ?thesis by (subst (1 2) str_nat.simps) (simp add: digit_char_is_digit)
  qed
qed

lemma str_int_no_plus: "CHR ''+'' \<notin> set (str_int i)"
  using str_nat_digits by (auto simp: str_int_def dest: plus_not_digit)

lemma count_occ_flag_appended:
  assumes "X \<noteq> CHR ''+''" "Y \<noteq> CHR ''+''" "CHR ''+'' \<notin> set t"
  shows "count_occ [CHR ''+'', Y] (a @ CHR ''+'' # X # t)
         = count_occ [CHR ''+'', Y] a + (if X = Y then 1 else 0)"
proof -
  have "CHR ''+'' \<notin> set (X # t)" using assms by auto
  then have "count_occ [CHR ''+'', Y] (X # t) = 0" by (rule count_occ_none)
  then have "count_occ [CHR ''+'', Y] (CHR ''+'' # X # t) = (if X = Y then 1 else 0)"
    by (simp add: count_occ_flag_Cons [of _ _ "CHR ''+''"] del: count_occ.simps)
  then show ?thesis using assms(2) by (simp add: count_occ_flag_append del: count_occ.simps)
qed

lemma re_sub_flag_append_no_plus:
  "CHR ''+'' \<notin> set pre \<Longrightarrow> re_sub_flag X repl (pre @ s) = pre @ re_sub_flag X repl s"
  by (induction pre) auto

lemma dropWhile_digits_append:
  "\<forall>c \<in> set ds. is_digit c \<Longrightarrow> post = [] \<or> \<not> is_digit (hd post)
   \<Longrightarrow> dropWhile is_digit (ds @ post) = post"
  by (cases post) (simp_all add: dropWhile_append3 dropWhile_append2)

lemma re_sub_flag_in_place:
  assumes "CHR ''+'' \<notin> set pre" "ds \<noteq> []" "\<forall>c \<in> set ds. is_digit c"
    "post = [] \<or> \<not> is_digit (hd post)"
  shows "re_sub_flag X repl (pre @ CHR ''+'' # X # ds @ post) = pre @ repl @ re_sub_flag X repl post"
proof -
  obtain d ds' where ds: "ds = d # ds'" using assms(2) by (cases ds) auto
  have "flag_here X (X # ds @ post)" using assms(3) by (simp add: flag_here_def ds)
  moreover have "dropWhile is_digit (ds @ post) = post"
    using assms(3,4) by (rule dropWhile_digits_append)
  ultimately have "re_sub_flag X repl (CHR ''+'' # X # ds @ post) = repl @ re_sub_flag X repl post"
    by simp
  with assms(1) show ?thesis by (simp add: re_sub_flag_append_no_plus)
qed

lemma inert_simps [simp]: "inert X []" "inert X (c # t) = (c \<noteq> X \<and> \<not> is_digit c)"
  by (simp_all add: inert_def)

lemma flag_here_append_inert: "inert X t \<Longrightarrow> flag_here X (cs @ t) = flag_here X cs"
  by (cases cs; cases "tl cs"; cases t) (auto simp: flag_here_def split: list.splits)

lemma dropWhile_digits_inert:
  "inert X t \<Longrightarrow> dropWhile is_digit (ds @ t) = dropWhile is_digit ds @ t"
  by (cases t) (auto simp: dropWhile_append)

lemma re_sub_flag_append_inert:
  "inert X t \<Longrightarrow> re_sub_flag X repl (u @ t) = re_sub_flag X repl u @ re_sub_flag X repl t"
proof (induction X repl u rule: re_sub_flag.induct)
  case (1 X repl)
  show ?case by simp
next
  case (2 X repl c cs)
  show ?case
  proof (cases "c = CHR ''+'' \<and> flag_here X cs")
    case True
    then have ne: "cs \<noteq> []" by (auto simp: flag_here_def)
    have fh: "flag_here X (cs @ t)" using True 2(3) by (simp add: flag_here_append_inert)
    have "dropWhile is_digit (tl (cs @ t)) = dropWhile is_digit (tl cs) @ t"
      using ne 2(3) by (simp add: dropWhile_digits_inert)
    moreover have "re_sub_flag X repl (dropWhile is_digit (tl cs) @ t)
                   = re_sub_flag X repl (dropWhile is_digit (tl cs)) @ re_sub_flag X repl t"
      using 2(1) True 2(3) by blast
    ultimately show ?thesis using True fh by simp
  next
    case False
    then have nfh: "\<not> (c = CHR ''+'' \<and> flag_here X (cs @ t))"
      using 2(3) by (simp add: flag_here_append_inert)
    have "re_sub_flag X repl (cs @ t) = re_sub_flag X repl cs @ re_sub_flag X repl t"
      using 2(2) False 2(3) by blast
    then show ?thesis using False nfh by auto
  qed
qed

lemma re_sub_flag_not_in: "\<not> is_in [CHR ''+'', X] s \<Longrightarrow> re_sub_flag X repl s = s"
proof (induction s)
  case Nil
  show ?case by simp
next
  case (Cons c cs)
  then have "\<not> (c = CHR ''+'' \<and> flag_here X cs)"
    by (auto simp: flag_here_def split: list.splits)
  with Cons show ?case by auto
qed

lemma count_occ_no_plus_prefix:
  "CHR ''+'' \<notin> set d \<Longrightarrow> count_occ [CHR ''+'', X] (d @ u) = count_occ [CHR ''+'', X] u"
  by (induction d) (auto simp add: count_occ_flag_Cons simp del: count_occ.simps)

lemma count_occ_append_inert:
  "inert X T \<Longrightarrow> count_occ [a, X] (s @ T) = count_occ [a, X] s + count_occ [a, X] T"
  by (cases T) (auto simp: count_occ_flag_append)

lemma inert_concat_flags: "X \<noteq> CHR ''+'' \<Longrightarrow> inert X (concat (map flag_text fs))"
  by (cases fs) (auto simp: flag_text_def is_digit_def split: prod.splits)

lemma re_sub_flag_text:
  assumes "flag_ok X f" "CHR ''+'' \<notin> set v"
  shows "re_sub_flag X (CHR ''+'' # X # v) (flag_text f) = flag_text (set_value X v f)"
proof -
  obtain k d s where f: "f = (k, d, s)" by (cases f)
  show ?thesis
  proof (cases "k = X")
    case True
    have ok: "d \<noteq> []" "\<forall>c \<in> set d. is_digit c" "s = [] \<or> \<not> is_digit (hd s)"
      "\<not> is_in [CHR ''+'', X] s"
      using assms(1) True
      by (auto simp: flag_ok_def f list_all_iff starts_with_digit_def split: list.splits)
    have "re_sub_flag X (CHR ''+'' # X # v) ([] @ CHR ''+'' # X # d @ s)
          = [] @ (CHR ''+'' # X # v) @ re_sub_flag X (CHR ''+'' # X # v) s"
      by (rule re_sub_flag_in_place) (use ok in simp_all)
    then show ?thesis
      using True ok(4) by (simp add: f flag_text_def set_value_def re_sub_flag_not_in)
  next
    case False
    have ok: "k \<noteq> CHR ''+''" "CHR ''+'' \<notin> set d" "\<not> is_in [CHR ''+'', X] s"
      using assms(1) by (auto simp: flag_ok_def f)
    have "count_occ [CHR ''+'', X] (d @ s) = 0"
      using ok by (simp add: count_occ_no_plus_prefix is_in_count del: count_occ.simps)
    then have "count_occ [CHR ''+'', X] (CHR ''+'' # k # d @ s) = 0"
      using False ok(1)
      by (simp add: count_occ_flag_Cons [of _ _ "CHR ''+''"] count_occ_flag_Cons [of _ _ k]
            del: count_occ.simps)
    then have "\<not> is_in [CHR ''+'', X] (flag_text f)"
      by (simp add: is_in_count f flag_text_def del: count_occ.simps is_in.simps)
    then have "re_sub_flag X (CHR ''+'' # X # v) (flag_text f) = flag_text f"
      by (rule re_sub_flag_not_in)
    then show ?thesis using False by (simp add: f set_value_def)
  qed
qed

lemma re_sub_flag_concat_flags:
  assumes "X \<noteq> CHR ''+''" "list_all (flag_ok X) fs" "CHR ''+'' \<notin> set v"
  shows "re_sub_flag X (CHR ''+'' # X # v) (concat (map flag_text fs))
         = concat (map flag_text (map (set_value X v) fs))"
  using assms(2)
proof (induction fs)
  case Nil
  show ?case by simp
next
  case (Cons f fs)
  have "re_sub_flag X (CHR ''+'' # X # v) (flag_text f @ concat (map flag_text fs))
        = re_sub_flag X (CHR ''+'' # X # v) (flag_text f)
          @ re_sub_flag X (CHR ''+'' # X # v) (concat (map flag_text fs))"
    by (rule re_sub_flag_append_inert) (rule inert_concat_flags [OF assms(1)])
  with Cons assms(3) show ?case by (simp add: re_sub_flag_text)
qed

lemma re_sub_flag_flagged:
  assumes "X \<noteq> CHR ''+''" "\<not> is_in [CHR ''+'', X] head" "list_all (flag_ok X) fs"
    "CHR ''+'' \<notin> set v" "inert X t" "\<not> is_in [CHR ''+'', X] t"
  shows "re_sub_flag X (CHR ''+'' # X # v) (flagged head fs @ t)
         = flagged head (map (set_value X v) fs) @ t"
proof -
  let ?r = "re_sub_flag X (CHR ''+'' # X # v)"
  have "?r (flagged head fs @ t) = ?r (flagged head fs) @ ?r t"
    using assms(5) by (rule re_sub_flag_append_inert)
  also have "?r t = t" using assms(6) by (rule re_sub_flag_not_in)
  also have "?r (flagged head fs) = ?r head @ ?r (concat (map flag_text fs))"
    unfolding flagged_def by (rule re_sub_flag_append_inert) (rule inert_concat_flags [OF assms(1)])
  also have "?r head = head" using assms(2) by (rule re_sub_flag_not_in)
  also have "?r (concat (map flag_text fs)) = concat (map flag_text (map (set_value X v) fs))"
    using assms(1,3,4) by (rule re_sub_flag_concat_flags)
  finally show ?thesis by (simp add: flagged_def)
qed

lemma count_occ_flag_text:
  assumes "X \<noteq> CHR ''+''" "flag_ok X f" "T = [] \<or> hd T = CHR ''+''"
  shows "count_occ [CHR ''+'', X] (flag_text f @ T)
         = (if fst f = X then 1 else 0) + count_occ [CHR ''+'', X] T"
proof -
  obtain k d s where f: "f = (k, d, s)" by (cases f)
  have ok: "k \<noteq> CHR ''+''" "CHR ''+'' \<notin> set d" "count_occ [CHR ''+'', X] s = 0"
    using assms(2) by (auto simp: flag_ok_def f is_in_count)
  have d: "count_occ [CHR ''+'', X] d = 0" using ok(2) by (rule count_occ_none)
  have "count_occ [CHR ''+'', X] (s @ T) = count_occ [CHR ''+'', X] T"
    using ok(3) assms(1,3) by (auto simp: count_occ_flag_append)
  then have "count_occ [CHR ''+'', X] (d @ s @ T) = count_occ [CHR ''+'', X] T"
    using ok(2) by (simp add: count_occ_no_plus_prefix del: count_occ.simps)
  then show ?thesis
    using ok(1)
    by (simp add: f flag_text_def count_occ_flag_Cons [of _ _ "CHR ''+''"]
          count_occ_flag_Cons [of _ _ k] del: count_occ.simps)
qed

lemma count_occ_concat_flags:
  assumes "X \<noteq> CHR ''+''" "list_all (flag_ok X) fs"
  shows "count_occ [CHR ''+'', X] (concat (map flag_text fs)) = length (filter (\<lambda>f. fst f = X) fs)"
  using assms(2)
proof (induction fs)
  case Nil
  show ?case by simp
next
  case (Cons f fs)
  have "concat (map flag_text fs) = [] \<or> hd (concat (map flag_text fs)) = CHR ''+''"
    by (cases fs) (auto simp: flag_text_def split: prod.splits)
  from count_occ_flag_text [OF assms(1) _ this, of f] Cons show ?case
    by (simp del: count_occ.simps)
qed

lemma is_in_flagged:
  assumes "X \<noteq> CHR ''+''" "\<not> is_in [CHR ''+'', X] head" "list_all (flag_ok X) fs"
    "inert X t" "\<not> is_in [CHR ''+'', X] t"
  shows "is_in [CHR ''+'', X] (flagged head fs @ t) \<longleftrightarrow> X \<in> set (map fst fs)"
proof -
  have inert: "inert X (concat (map flag_text fs))" by (rule inert_concat_flags [OF assms(1)])
  have "count_occ [CHR ''+'', X] (flagged head fs) = length (filter (\<lambda>f. fst f = X) fs)"
    using assms(2) count_occ_concat_flags [OF assms(1,3)]
    by (simp add: flagged_def count_occ_append_inert [OF inert] is_in_count del: count_occ.simps)
  moreover have "count_occ [CHR ''+'', X] (flagged head fs @ t) = count_occ [CHR ''+'', X] (flagged head fs)"
    using assms(5) by (simp add: count_occ_append_inert [OF assms(4)] is_in_count del: count_occ.simps)
  ultimately have "is_in [CHR ''+'', X] (flagged head fs @ t) \<longleftrightarrow> filter (\<lambda>f. fst f = X) fs \<noteq> []"
    by (simp add: is_in_count del: count_occ.simps is_in.simps)
  also have "\<dots> \<longleftrightarrow> X \<in> set (map fst fs)"
    by (auto simp: filter_empty_conv)
  finally show ?thesis .
qed

lemma set_value_absent: "X \<notin> set (map fst fs) \<Longrightarrow> map (set_value X v) fs = fs"
  by (induction fs) (auto simp: set_value_def)

lemma flag_step:
  assumes "X \<noteq> CHR ''+''" "\<not> is_in [CHR ''+'', X] head" "list_all (flag_ok X) fs"
    "CHR ''+'' \<notin> set v" "inert X t" "\<not> is_in [CHR ''+'', X] t"
  shows "(if is_in [CHR ''+'', X] (flagged head fs @ t)
          then re_sub_flag X (CHR ''+'' # X # v) (flagged head fs @ t)
          else (flagged head fs @ t) @ CHR ''+'' # X # v @ '' '')
         = flagged head (map (set_value X v) fs) @ t
           @ (if X \<in> set (map fst fs) then [] else CHR ''+'' # X # v @ '' '')"
  using is_in_flagged [OF assms(1,2,3,5,6)] re_sub_flag_flagged [OF assms]
  by (simp add: set_value_absent del: is_in.simps)

lemma digits_no_plus: "list_all is_digit d \<Longrightarrow> CHR ''+'' \<notin> set d"
  using plus_not_digit by (auto simp: list_all_iff)

lemma well_flaggedD:
  assumes "well_flagged head fs" "(k, d, s) \<in> set fs"
  shows "k = CHR ''W'' \<or> k = CHR ''H''" "d \<noteq> []" "list_all is_digit d"
    "\<not> is_in [CHR ''+'', CHR ''W''] s" "\<not> is_in [CHR ''+'', CHR ''H''] s" "\<not> starts_with_digit s"
proof -
  have "case (k, d, s) of (k, d, s) \<Rightarrow> k \<in> set ''WH'' \<and> d \<noteq> [] \<and> list_all is_digit d
          \<and> \<not> is_in ''+W'' s \<and> \<not> is_in ''+H'' s \<and> \<not> starts_with_digit s"
    using assms unfolding well_flagged_def list_all_iff by blast
  then show "k = CHR ''W'' \<or> k = CHR ''H''" "d \<noteq> []" "list_all is_digit d"
    "\<not> is_in [CHR ''+'', CHR ''W''] s" "\<not> is_in [CHR ''+'', CHR ''H''] s" "\<not> starts_with_digit s"
    by (simp_all del: is_in.simps)
qed

lemma well_flagged_ok_W:
  assumes "well_flagged head fs"
  shows "list_all (flag_ok (CHR ''W'')) fs"
  unfolding list_all_iff
proof
  fix f assume f: "f \<in> set fs"
  obtain k d s where kds: "f = (k, d, s)" by (cases f)
  note D = well_flaggedD [OF assms f [unfolded kds]]
  have "k \<noteq> CHR ''+''" using D(1) by auto
  moreover have "CHR ''+'' \<notin> set d" using D(3) by (rule digits_no_plus)
  ultimately show "flag_ok (CHR ''W'') f"
    unfolding kds flag_ok_def using D(2-4,6) by (simp del: is_in.simps)
qed

lemma well_flagged_ok_H:
  assumes "well_flagged head fs"
  shows "list_all (flag_ok (CHR ''H'')) (map (set_value (CHR ''W'') (str_int width)) fs)"
  unfolding list_all_iff
proof
  fix g assume "g \<in> set (map (set_value (CHR ''W'') (str_int width)) fs)"
  then obtain f where f: "f \<in> set fs" and g: "g = set_value (CHR ''W'') (str_int width) f" by auto
  obtain k d s where kds: "f = (k, d, s)" by (cases f)
  note D = well_flaggedD [OF assms f [unfolded kds]]
  have k: "k \<noteq> CHR ''+''" using D(1) by auto
  have d: "CHR ''+'' \<notin> set d" using D(3) by (rule digits_no_plus)
  show "flag_ok (CHR ''H'') g"
  proof (cases "k = CHR ''W''")
    case True
    then show ?thesis
      unfolding g kds flag_ok_def set_value_def using D(5) str_int_no_plus [of width]
      by (simp del: is_in.simps)
  next
    case False
    then show ?thesis
      unfolding g kds flag_ok_def set_value_def using k d D(2,3,5,6)
      by (simp del: is_in.simps)
  qed
qed

lemma not_in_appended:
  assumes "X \<noteq> Y" "X \<noteq> CHR ''+''" "Y \<noteq> CHR ''+''" "Y \<noteq> CHR '' ''" "CHR ''+'' \<notin> set v"
    "sp = [] \<or> sp = '' ''"
  shows "\<not> is_in [CHR ''+'', Y] (sp @ CHR ''+'' # X # v @ '' '')"
proof -
  have "CHR ''+'' \<notin> set (v @ '' '')" using assms(5) by simp
  from count_occ_flag_appended [OF assms(2,3) this, of sp] assms(1,4,6)
  have "count_occ [CHR ''+'', Y] (sp @ CHR ''+'' # X # v @ '' '') = 0" by auto
  then show ?thesis by (simp add: is_in_count del: count_occ.simps is_in.simps)
qed

lemma Povray_args_flagged:
  assumes wf: "well_flagged head fs"
  shows "Povray_args (flagged head fs) output width height
         = flagged head (map (set_value (CHR ''H'') (str_int height))
                          (map (set_value (CHR ''W'') (str_int width)) fs))
           @ (if flagged head fs \<noteq> [] then '' '' else [])
           @ (if CHR ''W'' \<in> set (map fst fs) then [] else ''+W'' @ str_int width @ '' '')
           @ (if CHR ''H'' \<in> set (map fst fs) then [] else ''+H'' @ str_int height @ '' '')
           @ (if output \<noteq> [] then ''+O'' @ output @ '' '' else [])"
proof -
  let ?W = "CHR ''W''" and ?H = "CHR ''H''"
  define sp where "sp = (if flagged head fs \<noteq> [] then '' '' else [])"
  define appW where "appW = (if ?W \<in> set (map fst fs) then [] else CHR ''+'' # ?W # str_int width @ '' '')"
  define appH where "appH = (if ?H \<in> set (map fst fs) then [] else CHR ''+'' # ?H # str_int height @ '' '')"
  define fsW where "fsW = map (set_value ?W (str_int width)) fs"
  define a1 where "a1 = flagged head fs @ sp"
  define a2 where "a2 = (if is_in [CHR ''+'', ?W] a1
                         then re_sub_flag ?W (CHR ''+'' # ?W # str_int width) a1
                         else a1 @ CHR ''+'' # ?W # str_int width @ '' '')"
  define a3 where "a3 = (if is_in [CHR ''+'', ?H] a2
                         then re_sub_flag ?H (CHR ''+'' # ?H # str_int height) a2
                         else a2 @ CHR ''+'' # ?H # str_int height @ '' '')"
  have args: "Povray_args (flagged head fs) output width height
              = (if output \<noteq> [] then a3 @ ''+O'' @ output @ '' '' else a3)"
    by (simp add: Povray_args_def a1_def a2_def a3_def sp_def Let_def del: is_in.simps)
  have sp: "sp = [] \<or> sp = '' ''" by (simp add: sp_def)
  have headW: "\<not> is_in [CHR ''+'', ?W] head" and headH: "\<not> is_in [CHR ''+'', ?H] head"
    using wf by (simp_all add: well_flagged_def del: is_in.simps)
  have spW: "inert ?W sp" "\<not> is_in [CHR ''+'', ?W] sp" and spH0: "inert ?H sp"
    using sp by (auto simp: is_digit_def)
  have okW: "list_all (flag_ok ?W) fs" by (rule well_flagged_ok_W [OF wf])
  have okH: "list_all (flag_ok ?H) fsW" unfolding fsW_def by (rule well_flagged_ok_H [OF wf])
  have "(if is_in [CHR ''+'', ?W] (flagged head fs @ sp)
         then re_sub_flag ?W (CHR ''+'' # ?W # str_int width) (flagged head fs @ sp)
         else (flagged head fs @ sp) @ CHR ''+'' # ?W # str_int width @ '' '')
        = flagged head (map (set_value ?W (str_int width)) fs) @ sp
          @ (if ?W \<in> set (map fst fs) then [] else CHR ''+'' # ?W # str_int width @ '' '')"
    by (rule flag_step) (simp, fact headW, fact okW, rule str_int_no_plus, fact spW(1), fact spW(2))
  then have step1: "a2 = flagged head fsW @ sp @ appW"
    unfolding a2_def a1_def fsW_def appW_def .
  have tailH: "inert ?H (sp @ appW)" "\<not> is_in [CHR ''+'', ?H] (sp @ appW)"
  proof -
    show "inert ?H (sp @ appW)" using sp by (auto simp: appW_def is_digit_def)
    show "\<not> is_in [CHR ''+'', ?H] (sp @ appW)"
    proof (cases "?W \<in> set (map fst fs)")
      case True
      then show ?thesis using sp by (auto simp: appW_def)
    next
      case False
      then show ?thesis
        using not_in_appended [of ?W ?H "str_int width" sp] sp str_int_no_plus [of width]
        by (simp add: appW_def del: is_in.simps)
    qed
  qed
  have kinds: "map fst fsW = map fst fs"
    by (simp add: fsW_def set_value_def o_def split: prod.splits)
  have "(if is_in [CHR ''+'', ?H] (flagged head fsW @ (sp @ appW))
         then re_sub_flag ?H (CHR ''+'' # ?H # str_int height) (flagged head fsW @ (sp @ appW))
         else (flagged head fsW @ (sp @ appW)) @ CHR ''+'' # ?H # str_int height @ '' '')
        = flagged head (map (set_value ?H (str_int height)) fsW) @ (sp @ appW)
          @ (if ?H \<in> set (map fst fsW) then [] else CHR ''+'' # ?H # str_int height @ '' '')"
    by (rule flag_step) (simp, fact headH, fact okH, rule str_int_no_plus, fact tailH(1), fact tailH(2))
  then have "a3 = flagged head (map (set_value ?H (str_int height)) fsW) @ (sp @ appW)
             @ (if ?H \<in> set (map fst fsW) then [] else CHR ''+'' # ?H # str_int height @ '' '')"
    unfolding a3_def step1 by (simp only: append_assoc)
  then have step2: "a3 = flagged head (map (set_value ?H (str_int height)) fsW) @ sp @ appW @ appH"
    by (simp add: kinds appH_def)
  show ?thesis
    unfolding args step2 by (simp add: sp_def appW_def appH_def fsW_def)
qed

lemma is_in_suffix: "p \<noteq> [] \<Longrightarrow> is_in p ys \<Longrightarrow> is_in p (xs @ ys)"
  by (induction xs) (cases ys; simp)+

lemma not_digit_dropWhile: "\<not> starts_with_digit (dropWhile is_digit xs)"
  by (induction xs) (simp_all add: starts_with_digit_def)

lemma well_flagged_Cons_head:
  assumes "well_flagged head fs" "\<not> prefix ''+W'' (c # head @ concat (map flag_text fs))"
    "\<not> prefix ''+H'' (c # head @ concat (map flag_text fs))"
  shows "well_flagged (c # head) fs"
proof -
  have "\<not> prefix [CHR ''+'', k] (c # head)" if "\<not> prefix [CHR ''+'', k] (c # head @ concat (map flag_text fs))" for k
    using that by (cases head) auto
  then show ?thesis using assms by (auto simp: well_flagged_def)
qed

lemma proper_flags_flagged:
  "proper_flags s \<Longrightarrow> \<exists>head fs. s = flagged head fs \<and> well_flagged head fs"
proof (induction s)
  case Nil
  have "[] = flagged [] []" "well_flagged [] []" by (simp_all add: flagged_def well_flagged_def)
  then show ?case by blast
next
  case (Cons c cs)
  then obtain head fs where cs: "cs = flagged head fs" and wf: "well_flagged head fs" by auto
  show ?case
  proof (cases "c = CHR ''+'' \<and> (prefix ''W'' cs \<or> prefix ''H'' cs)")
    case False
    then have "\<not> prefix ''+W'' (c # head @ concat (map flag_text fs))"
      "\<not> prefix ''+H'' (c # head @ concat (map flag_text fs))"
      by (auto simp: cs flagged_def)
    then have "well_flagged (c # head) fs" by (rule well_flagged_Cons_head [OF wf])
    moreover have "c # cs = flagged (c # head) fs" by (simp add: cs flagged_def)
    ultimately show ?thesis by blast
  next
    case True
    then obtain k where k: "k = CHR ''W'' \<or> k = CHR ''H''" and pk: "prefix [k] cs" by auto
    have fh: "flag_here k cs" using Cons.prems True k pk by auto
    then obtain d rest where cs': "cs = k # d # rest" and d: "is_digit d"
      by (auto simp: flag_here_def split: list.splits)
    have hd_head: "\<exists>rest'. head = k # d # rest'"
    proof (cases head)
      case Nil
      then show ?thesis using cs' k by (cases fs) (auto simp: cs flagged_def flag_text_def split: prod.splits)
    next
      case (Cons a head')
      show ?thesis
      proof (cases head')
        case Nil
        then show ?thesis using cs' d Cons
          by (cases fs) (auto simp: cs flagged_def flag_text_def is_digit_def split: prod.splits)
      next
        case (Cons b head'')
        then show ?thesis using cs' \<open>head = a # head'\<close> by (auto simp: cs flagged_def)
      qed
    qed
    then obtain rest' where head: "head = k # d # rest'" by blast
    define ds where "ds = takeWhile is_digit (d # rest')"
    define tx where "tx = dropWhile is_digit (d # rest')"
    have split: "d # rest' = ds @ tx" by (simp add: ds_def tx_def)
    have ds: "ds \<noteq> []" "list_all is_digit ds"
      using d by (auto simp: ds_def list_all_iff dest: set_takeWhileD)
    have tx: "\<not> starts_with_digit tx"
      unfolding tx_def by (rule not_digit_dropWhile)
    have headW: "\<not> is_in ''+W'' head" and headH: "\<not> is_in ''+H'' head"
      using wf by (simp_all add: well_flagged_def del: is_in.simps)
    have head': "head = (k # ds) @ tx" using head split by simp
    have "is_in ''+W'' tx \<Longrightarrow> is_in ''+W'' head" and "is_in ''+H'' tx \<Longrightarrow> is_in ''+H'' head"
      unfolding head' by (rule is_in_suffix, simp, assumption)+
    then have txW: "\<not> is_in ''+W'' tx" and txH: "\<not> is_in ''+H'' tx"
      using headW headH by blast+
    have rest: "list_all (\<lambda>(k, d, s). k \<in> set ''WH'' \<and> d \<noteq> [] \<and> list_all is_digit d
                     \<and> \<not> is_in ''+W'' s \<and> \<not> is_in ''+H'' s \<and> \<not> starts_with_digit s) fs"
      using wf by (simp add: well_flagged_def del: is_in.simps)
    have kWH: "k \<in> set ''WH''" using k by auto
    have "well_flagged [] ((k, ds, tx) # fs)"
      unfolding well_flagged_def list.pred_inject prod.case is_in.simps(1)
      using kWH ds tx txW txH rest by blast
    moreover have "c # cs = flagged [] ((k, ds, tx) # fs)"
    proof -
      have "c # cs = CHR ''+'' # k # (d # rest') @ concat (map flag_text fs)"
        using True head by (simp add: cs flagged_def)
      also have "\<dots> = CHR ''+'' # k # (ds @ tx) @ concat (map flag_text fs)"
        by (simp only: split)
      also have "\<dots> = flagged [] ((k, ds, tx) # fs)"
        by (simp add: flagged_def flag_text_def)
      finally show ?thesis .
    qed
    ultimately show ?thesis by blast
  qed
qed

subsection \<open>Claims\<close>

text \<open>
  C3. When the renderer executable path read from the preference store is the empty
  string, \<^verbatim>\<open>render\<close> of either backend returns the empty string and starts no
  external process.
\<close>

theorem render_without_executable:
  "(GetString params ''CyclesPath'' '''' = [] \<longrightarrow>
      fst (Cycles_render params project prefix' external output width height) = []
      \<and> spawned (snd (Cycles_render params project prefix' external output width height)) = [])
   \<and> (GetString params ''PovRayPath'' '''' = [] \<longrightarrow>
      fst (Povray_render splitext params project prefix' external output width height) = []
      \<and> spawned (snd (Povray_render splitext params project prefix' external output width height)) = [])"
  by (simp add: Cycles_render_def Povray_render_def Let_def)

theorem render_without_executable_witness:
  "GetString [''Prefix'' \<mapsto> ''nice'', ''CyclesPath'' \<mapsto> ''''] ''CyclesPath'' '''' = []
   \<and> fst (Cycles_render [''Prefix'' \<mapsto> ''nice'', ''CyclesPath'' \<mapsto> ''''] \<lparr>PageResult = ''scene.pov''\<rparr>
          ''nice'' False ''out.png'' 800 600) = []
   \<and> spawned (snd (Cycles_render [''Prefix'' \<mapsto> ''nice'', ''CyclesPath'' \<mapsto> ''''] \<lparr>PageResult = ''scene.pov''\<rparr>
          ''nice'' False ''out.png'' 800 600)) = []
   \<and> GetString [''Prefix'' \<mapsto> ''nice'', ''CyclesPath'' \<mapsto> ''''] ''PovRayPath'' '''' = []
   \<and> fst (Povray_render id [''Prefix'' \<mapsto> ''nice'', ''CyclesPath'' \<mapsto> ''''] \<lparr>PageResult = ''scene.pov''\<rparr>
          ''nice'' False ''out.png'' 800 600) = []
   \<and> spawned (snd (Povray_render id [''Prefix'' \<mapsto> ''nice'', ''CyclesPath'' \<mapsto> ''''] \<lparr>PageResult = ''scene.pov''\<rparr>
          ''nice'' False ''out.png'' 800 600)) = []"
  using render_without_executable [where params = "[''Prefix'' \<mapsto> ''nice'', ''CyclesPath'' \<mapsto> '''']"
      and project = "\<lparr>PageResult = ''scene.pov''\<rparr>" and prefix' = "''nice''" and external = False
      and ?output = "''out.png''" and width = 800 and height = 600 and splitext = id]
  by (simp add: GetString_def)

text \<open>
  C4, as the code has it. POV-Ray builds its command from \<open>Povray_args\<close>. A stored
  argument string in which every \<open>+W\<close> and every \<open>+H\<close> is followed by a digit is a text
  followed by width and height flags; in the argument string built from it every
  width flag has the new width and every height flag the new height, each in its
  place, the rest of the string is as it was, \<open>+W\<close> with the width is appended only when
  the stored string has no width flag, and \<open>+H\<close> with the height only when it has no
  height flag. Cycles does no substitution: it appends \<open>--width\<close> and \<open>--height\<close> after
  the stored parameters.
\<close>

theorem render_width_height_flags:
  "(GetString params ''PovRayPath'' '''' \<noteq> [] \<longrightarrow>
      spawned (snd (Povray_render splitext params project prefix' external output width height))
        = [(if GetString params ''Prefix'' '''' \<noteq> [] then GetString params ''Prefix'' '''' @ '' '' else [])
           @ GetString params ''PovRayPath'' '''' @ '' ''
           @ Povray_args (GetString params ''PovRayParameters'' '''') output width height
           @ PageResult project])
   \<and> (proper_flags stored \<longrightarrow> (\<exists>head fs. stored = flagged head fs \<and> well_flagged head fs))
   \<and> (well_flagged head fs \<longrightarrow>
        Povray_args (flagged head fs) output width height
          = flagged head (map (set_value (CHR ''H'') (str_int height))
                           (map (set_value (CHR ''W'') (str_int width)) fs))
            @ (if flagged head fs \<noteq> [] then '' '' else [])
            @ (if CHR ''W'' \<in> set (map fst fs) then [] else ''+W'' @ str_int width @ '' '')
            @ (if CHR ''H'' \<in> set (map fst fs) then [] else ''+H'' @ str_int height @ '' '')
            @ (if output \<noteq> [] then ''+O'' @ output @ '' '' else []))
   \<and> (GetString params ''CyclesPath'' '''' \<noteq> [] \<longrightarrow>
      spawned (snd (Cycles_render params project prefix' external output width height))
        = [(if GetString params ''Prefix'' '''' \<noteq> [] then GetString params ''Prefix'' '''' @ '' '' else [])
           @ GetString params ''CyclesPath'' '''' @ '' ''
           @ GetString params ''CyclesParameters'' '''' @ '' --output '' @ output
           @ (if external then [] else '' --background'')
           @ '' --width '' @ str_int width @ '' --height '' @ str_int height
           @ '' '' @ PageResult project])"
proof -
  have pov: "GetString params ''PovRayPath'' '''' \<noteq> [] \<longrightarrow>
      spawned (snd (Povray_render splitext params project prefix' external output width height))
        = [(if GetString params ''Prefix'' '''' \<noteq> [] then GetString params ''Prefix'' '''' @ '' '' else [])
           @ GetString params ''PovRayPath'' '''' @ '' ''
           @ Povray_args (GetString params ''PovRayParameters'' '''') output width height
           @ PageResult project]"
    by (simp add: Povray_render_def Let_def)
  have cyc: "GetString params ''CyclesPath'' '''' \<noteq> [] \<longrightarrow>
      spawned (snd (Cycles_render params project prefix' external output width height))
        = [(if GetString params ''Prefix'' '''' \<noteq> [] then GetString params ''Prefix'' '''' @ '' '' else [])
           @ GetString params ''CyclesPath'' '''' @ '' ''
           @ GetString params ''CyclesParameters'' '''' @ '' --output '' @ output
           @ (if external then [] else '' --background'')
           @ '' --width '' @ str_int width @ '' --height '' @ str_int height
           @ '' '' @ PageResult project]"
    by (simp add: Cycles_render_def Let_def)
  show ?thesis
    using pov cyc proper_flags_flagged [of stored]
      Povray_args_flagged [of head fs "output" width height]
    by blast
qed

theorem render_width_height_flags_witness:
  "GetString [''PovRayPath'' \<mapsto> ''povray'', ''PovRayParameters'' \<mapsto> ''+A +W800 +H600'',
              ''CyclesPath'' \<mapsto> ''cycles'', ''CyclesParameters'' \<mapsto> ''--width 800''] ''PovRayPath'' '''' \<noteq> []
   \<and> spawned (snd (Povray_render id
        [''PovRayPath'' \<mapsto> ''povray'', ''PovRayParameters'' \<mapsto> ''+A +W800 +H600'',
         ''CyclesPath'' \<mapsto> ''cycles'', ''CyclesParameters'' \<mapsto> ''--width 800'']
        \<lparr>PageResult = ''scene.pov''\<rparr> [] False ''out.png'' 1024 768))
      = [''povray +A +W1024 +H768 +Oout.png scene.pov'']
   \<and> proper_flags ''+A +W800 +H600''
   \<and> ''+A +W800 +H600'' = flagged ''+A '' [(CHR ''W'', ''800'', '' ''), (CHR ''H'', ''600'', [])]
   \<and> well_flagged ''+A '' [(CHR ''W'', ''800'', '' ''), (CHR ''H'', ''600'', [])]
   \<and> Povray_args ''+A +W800 +H600'' ''out.png'' 1024 768 = ''+A +W1024 +H768 +Oout.png ''
   \<and> GetString [''PovRayPath'' \<mapsto> ''povray'', ''PovRayParameters'' \<mapsto> ''+A +W800 +H600'',
              ''CyclesPath'' \<mapsto> ''cycles'', ''CyclesParameters'' \<mapsto> ''--width 800''] ''CyclesPath'' '''' \<noteq> []
   \<and> spawned (snd (Cycles_render
        [''PovRayPath'' \<mapsto> ''povray'', ''PovRayParameters'' \<mapsto> ''+A +W800 +H600'',
         ''CyclesPath'' \<mapsto> ''cycles'', ''CyclesParameters'' \<mapsto> ''--width 800'']
        \<lparr>PageResult = ''scene.pov''\<rparr> [] False ''out.png'' 1024 768))
      = [''cycles --width 800 --output out.png --background --width 1024 --height 768 scene.pov'']"
  using render_width_height_flags [where params = "[''PovRayPath'' \<mapsto> ''povray'', ''PovRayParameters'' \<mapsto> ''+A +W800 +H600'',
         ''CyclesPath'' \<mapsto> ''cycles'', ''CyclesParameters'' \<mapsto> ''--width 800'']"
      and splitext = id and project = "\<lparr>PageResult = ''scene.pov''\<rparr>" and prefix' = "[]" and external = False
      and ?output = "''out.png''" and width = 1024 and height = 768 and stored = "''+A +W800 +H600''"
      and head = "''+A ''" and fs = "[(CHR ''W'', ''800'', '' ''), (CHR ''H'', ''600'', [])]"]
  by (simp add: GetString_def is_digit_def str_int_def str_nat.simps digit_char_def flag_here_def
        flagged_def flag_text_def set_value_def well_flagged_def starts_with_digit_def)

text \<open>
  C4 as stated fails for Cycles: a stored \<open>--width\<close> flag stays, and the new one is
  appended, so the command holds two.
\<close>

theorem Cycles_render_duplicate_width_counterexample:
  "spawned (snd (Cycles_render [''CyclesPath'' \<mapsto> ''cycles'', ''CyclesParameters'' \<mapsto> ''--width 800'']
                   \<lparr>PageResult = ''scene.xml''\<rparr> [] False ''out.png'' 1024 768))
     = [''cycles --width 800 --output out.png --background --width 1024 --height 768 scene.xml'']
   \<and> count_occ ''--width''
         ''cycles --width 800 --output out.png --background --width 1024 --height 768 scene.xml'' = 2"
  by (simp add: Cycles_render_def GetString_def str_int_def str_nat.simps digit_char_def)




text \<open>
  C10. What \<^verbatim>\<open>render\<close> does and returns does not depend on the \<open>prefix\<close> argument:
  two calls that differ in it alone have the same result and the same effects, the
  command among them.
\<close>

theorem render_ignores_prefix_argument:
  "Cycles_render params project prefix1 external output width height
     = Cycles_render params project prefix2 external output width height
   \<and> Povray_render splitext params project prefix1 external output width height
     = Povray_render splitext params project prefix2 external output width height"
  by (simp add: Cycles_render_def Povray_render_def)

section \<open>Properties of the material dispatcher\<close>

lemma Cycles_write_material_unknown_tag:
  assumes "map_of (MATERIALS fmt) (shadertype material) = None"
  shows "Cycles_write_material fmt name material
         = ([PrintWarning (msg_unknown name (shadertype material))],
            Inr (Cycles_fallback_snippet name (PyInt 1) (PyInt 1) (PyInt 1)))"
  using assms
  by (simp add: Cycles_write_material_def Cycles_write_material_fallback_def fallback_try_def)

text \<open>
  C1 fails on the code. \<^verbatim>\<open>_write_material\<close> catches \<^verbatim>\<open>KeyError\<close> only: for a Passthrough
  material whose template names another renderer than Cycles, the assertion of
  \<^verbatim>\<open>_write_material_passthrough\<close> raises \<^verbatim>\<open>AssertionError\<close>, which reaches the caller.
\<close>

theorem Cycles_write_material_passthrough_raises:
  "Cycles_write_material fmt ''Cube''
     \<lparr>shadertype = ''Passthrough'',
      default_color = RGB (PyFloat 0.8) (PyFloat 0.8) (PyFloat 0.8),
      passthrough = Some \<lparr>renderer = ''Povray'', passthrough_string = ''texture { pigment { color rgb <{c.r}, {c.g}, {c.b}> } }''\<rparr>,
      glass = None, disney = None, diffuse = None, mixed = None\<rparr>
   = ([], Inl AssertionError)"
  by (simp add: Cycles_write_material_def MATERIALS_def Cycles_write_material_passthrough_def)

text \<open>
  C2 fails on the code. For a material with an unknown shading-model tag and the valid
  default colour \<open>(0.8, 0.2, 0.2)\<close>, \<^verbatim>\<open>_write_material\<close> emits the fallback snippet in
  white: it hands the colour, not the material, to the fallback emitter, whose read of
  \<^verbatim>\<open>.default_color\<close> then raises \<^verbatim>\<open>AttributeError\<close>. Given the material itself, the
  fallback emitter takes the declared colour.
\<close>

theorem Cycles_write_material_fallback_white:
  "Cycles_write_material fmt ''Cube''
     \<lparr>shadertype = ''Carpaint'',
      default_color = RGB (PyFloat 0.8) (PyFloat 0.2) (PyFloat 0.2),
      passthrough = None, glass = None, disney = None, diffuse = None, mixed = None\<rparr>
   = ([PrintWarning (msg_unknown ''Cube'' ''Carpaint'')],
      Inr (Cycles_fallback_snippet ''Cube'' (PyInt 1) (PyInt 1) (PyInt 1)))
   \<and> Cycles_write_material_fallback ''Cube''
       (MaterialObj \<lparr>shadertype = ''Carpaint'',
          default_color = RGB (PyFloat 0.8) (PyFloat 0.2) (PyFloat 0.2),
          passthrough = None, glass = None, disney = None, diffuse = None, mixed = None\<rparr>)
     = Inr (Cycles_fallback_snippet ''Cube'' (PyFloat 0.8) (PyFloat 0.2) (PyFloat 0.2))
   \<and> values_of ''r'' (Cycles_fallback_snippet ''Cube'' (PyInt 1) (PyInt 1) (PyInt 1)) = [PyInt 1]
   \<and> values_of ''r'' (Cycles_fallback_snippet ''Cube'' (PyFloat 0.8) (PyFloat 0.2) (PyFloat 0.2)) = [PyFloat 0.8]"
  by (simp add: Cycles_write_material_def MATERIALS_def Cycles_write_material_fallback_def
        fallback_try_def Cycles_fallback_snippet_def)

section \<open>Properties of the light emitters\<close>

lemma Length_nonneg: "0 \<le> Length v"
  by (simp add: Length_def)

lemma Length_sq: "(Length v)\<^sup>2 = (vx v)\<^sup>2 + (vy v)\<^sup>2 + (vz v)\<^sup>2"
  by (simp add: Length_def)

lemma unit_after_division:
  assumes "Length v \<noteq> 0"
  shows "sqrt ((vx v / Length v)\<^sup>2 + (vy v / Length v)\<^sup>2 + (vz v / Length v)\<^sup>2) = 1"
proof -
  have "(vx v / Length v)\<^sup>2 + (vy v / Length v)\<^sup>2 + (vz v / Length v)\<^sup>2
        = ((vx v)\<^sup>2 + (vy v)\<^sup>2 + (vz v)\<^sup>2) / (Length v)\<^sup>2"
    by (simp add: power_divide add_divide_distrib)
  also have "\<dots> = 1" using assms by (simp add: Length_sq [symmetric])
  finally show ?thesis by simp
qed

lemma vz_le_Length: "\<bar>vz v\<bar> \<le> Length v"
proof -
  have "(vz v)\<^sup>2 \<le> (vx v)\<^sup>2 + (vy v)\<^sup>2 + (vz v)\<^sup>2" by simp
  then have "sqrt ((vz v)\<^sup>2) \<le> Length v" unfolding Length_def by (rule real_sqrt_le_mono)
  then show ?thesis by simp
qed

lemma sine_in_range:
  assumes "Length v \<noteq> 0"
  shows "- 1 \<le> vz v / Length v \<and> vz v / Length v \<le> 1"
proof -
  have pos: "0 < Length v" using assms Length_nonneg [of v] by simp
  have "\<bar>vz v\<bar> \<le> Length v" by (rule vz_le_Length)
  then have "- Length v \<le> vz v" "vz v \<le> Length v" by linarith+
  with pos show ?thesis by (simp add: pos_le_divide_eq pos_divide_le_eq)
qed

lemma atan2_scale:
  assumes "0 < k"
  shows "atan2 (b / k) (a / k) = atan2 b a"
  using assms by (simp add: atan2_def zero_less_divide_iff divide_less_0_iff zero_le_divide_iff)

lemma values_of_sunsky:
  "values_of ''e'' (Cycles_sunsky_snippet n t g e r) = [PyFloat e]"
  "values_of ''r'' (Cycles_sunsky_snippet n t g e r) = [PyFloat r]"
  by (simp_all add: Cycles_sunsky_snippet_def)

lemma Cycles_sunsky_exec:
  assumes len: "Length (cells h direction) \<noteq> 0"
    and sun: "sunlight (arcsin (vz (cells h direction) / Length (cells h direction))) turbidity = Inr s"
  shows "Cycles_write_sunskylight sunlight h name direction distance turbidity albedo
         = (Inr (Cycles_sunsky_snippet name turbidity albedo
                  (arcsin (vz (cells h direction) / Length (cells h direction)))
                  (atan2 (vx (cells h direction)) (vy (cells h direction)))),
            h\<lparr>cells := (cells h)(next_ref h :=
                  Vector (vx (cells h direction) / Length (cells h direction))
                         (vy (cells h direction) / Length (cells h direction))
                         (vz (cells h direction) / Length (cells h direction))),
              next_ref := Suc (next_ref h)\<rparr>)"
proof -
  let ?d = "cells h direction"
  have pos: "0 < Length ?d" using len Length_nonneg [of ?d] by simp
  show ?thesis
    using len sun unit_after_division [OF len] sine_in_range [OF len] atan2_scale [OF pos]
    by (simp add: Cycles_write_sunskylight_def Vector_copy_def normalize_def Let_def py_div_def
          asin_def)
qed

lemma values_of_append: "values_of k (f @ g) = values_of k f @ values_of k g"
  by (induction f rule: values_of.induct) simp_all

lemma values_of_arealight:
  "values_of ''s'' (Cycles_arealight_snippet1 n c p s u v a b d) = [PyFloat s]"
  "values_of ''s'' P = [] \<Longrightarrow> values_of ''s'' (Cycles_arealight_snippet2 n c s P) = [PyFloat s]"
  by (simp_all add: Cycles_arealight_snippet1_def Cycles_arealight_snippet2_def values_of_append)

lemma Cycles_arealight_transparent:
  "map_sum id (values_of ''s'') (Cycles_write_arealight name pos size_u size_v color p True)
   = Inr [PyFloat (p * 100)]"
  by (simp add: Cycles_write_arealight_def Let_def values_of_arealight)

lemma Cycles_arealight_opaque:
  "size_u * size_v \<noteq> 0 \<Longrightarrow>
   map_sum id (values_of ''s'') (Cycles_write_arealight name pos size_u size_v color p False)
   = Inr [PyFloat (p / (size_u * size_v) * 100)]"
  by (simp add: Cycles_write_arealight_def Let_def Cycles_arealight_snippet2_def py_div_def
        values_of_append Cycles_point_def)

lemma Cycles_write_sunskylight_keeps_direction:
  assumes "direction < next_ref h"
  shows "cells (snd (Cycles_write_sunskylight sunlight h name direction distance turbidity albedo)) direction
         = cells h direction"
  using assms
  by (auto simp: Cycles_write_sunskylight_def Vector_copy_def normalize_def Let_def
           split: sum.splits prod.splits if_splits)

text \<open>
  C6 fails on the code. POV-Ray's \<^verbatim>\<open>write_sunskylight\<close> calls \<^verbatim>\<open>normalize\<close> on its
  \<open>direction\<close> argument and sets the length of the vector returned, which is the same
  object: called with the direction \<open>(0, 0, 1)\<close> and the distance \<open>5\<close>, it leaves the
  caller's vector at \<open>(0, 0, 5)\<close>. The Cycles function works on a copy
  (\<open>Cycles_write_sunskylight_keeps_direction\<close>).
\<close>

theorem Povray_write_sunskylight_mutates_direction:
  "Povray_write_sunskylight \<lparr>cells = (\<lambda>_. Vector 0 0 0)(0 := Vector 0 0 1), next_ref = 1\<rparr> ''sun'' 0 5 (PyFloat 2)
   = (Inr (Povray_sunsky_snippet ''sun'' (Vector 0 0 5)),
      \<lparr>cells = (\<lambda>_. Vector 0 0 0)(0 := Vector 0 0 5), next_ref = 1\<rparr>)
   \<and> Vector 0 0 5 \<noteq> Vector 0 0 1"
  by (simp add: Povray_write_sunskylight_def normalize_def set_Length_def Length_def)

text \<open>
  C7, as the code has it. For a sun direction \<open>d\<close> that is not the null vector, Cycles'
  \<^verbatim>\<open>write_sunskylight\<close> normalizes a copy of \<open>d\<close> and emits the elevation
  \<open>asin (z / |d|)\<close> and the azimuth \<open>atan2 x y\<close>; the elevation is \<open>\<pi> / 2\<close> for the
  direction \<open>(0, 0, 1)\<close>.
\<close>

theorem Cycles_sunsky_angles:
  assumes "Length (cells h direction) \<noteq> 0"
    and "sunlight (arcsin (vz (cells h direction) / Length (cells h direction))) turbidity = Inr s"
  shows "Cycles_write_sunskylight sunlight h name direction distance turbidity albedo
         = (Inr (Cycles_sunsky_snippet name turbidity albedo
                  (arcsin (vz (cells h direction) / Length (cells h direction)))
                  (atan2 (vx (cells h direction)) (vy (cells h direction)))),
            h\<lparr>cells := (cells h)(next_ref h :=
                  Vector (vx (cells h direction) / Length (cells h direction))
                         (vy (cells h direction) / Length (cells h direction))
                         (vz (cells h direction) / Length (cells h direction))),
              next_ref := Suc (next_ref h)\<rparr>)"
  using assms by (rule Cycles_sunsky_exec)

theorem Cycles_sunsky_angles_witness:
  "Length (Vector 0 0 1) \<noteq> 0
   \<and> Cycles_write_sunskylight (\<lambda>theta turbidity. Inr ())
        \<lparr>cells = (\<lambda>_. Vector 0 0 1), next_ref = 1\<rparr> ''sun'' 0 1 (PyFloat 2) (PyFloat 0.3)
     = (Inr (Cycles_sunsky_snippet ''sun'' (PyFloat 2) (PyFloat 0.3) (pi / 2) 0),
        \<lparr>cells = (\<lambda>_. Vector 0 0 1)(1 := Vector 0 0 1), next_ref = 2\<rparr>)"
  using Cycles_sunsky_angles [where h = "\<lparr>cells = (\<lambda>_. Vector 0 0 1), next_ref = 1\<rparr>" and direction = 0
      and sunlight = "\<lambda>theta turbidity. Inr ()" and turbidity = "PyFloat 2" and s = "()"
      and name = "''sun''" and distance = 1 and albedo = "PyFloat 0.3"]
  by (simp add: Length_def atan2_def)

text \<open>
  C7 as stated fails at the direction \<open>(0, 1, 0)\<close>: its \<open>z\<close> is \<open>0\<close>, and the elevation
  emitted is \<open>0\<close>, not \<open>\<pi> / 2\<close>.
\<close>

theorem Cycles_sunsky_elevation_counterexample:
  "map_sum id (values_of ''e'')
     (fst (Cycles_write_sunskylight (\<lambda>theta turbidity. Inr ())
        \<lparr>cells = (\<lambda>_. Vector 0 1 0), next_ref = 1\<rparr> ''sun'' 0 1 (PyFloat 2) (PyFloat 0.3)))
   = Inr [PyFloat 0]
   \<and> PyFloat 0 \<noteq> PyFloat (pi / 2)"
  by (simp add: Cycles_write_sunskylight_def Vector_copy_def normalize_def Let_def py_div_def
        asin_def Length_def values_of_sunsky)

text \<open>
  C8. The strength Cycles' \<^verbatim>\<open>write_arealight\<close> emits is \<open>power * 100\<close> for a transparent
  light, so doubling the power doubles it; for an opaque light of positive width and
  height it is \<open>power / (width * height) * 100\<close>, so doubling the area at the same power
  halves it.
\<close>

theorem Cycles_arealight_strength:
  "map_sum id (values_of ''s'') (Cycles_write_arealight name pos size_u size_v color p True)
     = Inr [PyFloat (p * 100)]
   \<and> map_sum id (values_of ''s'') (Cycles_write_arealight name pos size_u size_v color (2 * p) True)
     = Inr [PyFloat (2 * (p * 100))]
   \<and> (0 < size_u \<and> 0 < size_v \<longrightarrow>
        map_sum id (values_of ''s'') (Cycles_write_arealight name pos size_u size_v color p False)
        = Inr [PyFloat (p / (size_u * size_v) * 100)])
   \<and> (0 < size_u \<and> 0 < size_v \<and> size_u' * size_v' = 2 * (size_u * size_v) \<longrightarrow>
        map_sum id (values_of ''s'') (Cycles_write_arealight name pos size_u' size_v' color p False)
        = Inr [PyFloat (p / (size_u * size_v) * 100 / 2)])"
proof -
  have opaque2: "map_sum id (values_of ''s'') (Cycles_write_arealight name pos size_u' size_v' color p False)
        = Inr [PyFloat (p / (size_u * size_v) * 100 / 2)]"
    if "0 < size_u" "0 < size_v" "size_u' * size_v' = 2 * (size_u * size_v)"
  proof -
    have "size_u' * size_v' \<noteq> 0" using that by simp
    then have "map_sum id (values_of ''s'') (Cycles_write_arealight name pos size_u' size_v' color p False)
        = Inr [PyFloat (p / (size_u' * size_v') * 100)]"
      by (rule Cycles_arealight_opaque)
    then show ?thesis using that by simp
  qed
  have opaque1: "map_sum id (values_of ''s'') (Cycles_write_arealight name pos size_u size_v color p False)
        = Inr [PyFloat (p / (size_u * size_v) * 100)]"
    if "0 < size_u" "0 < size_v"
    using that by (intro Cycles_arealight_opaque) simp
  have twice: "map_sum id (values_of ''s'') (Cycles_write_arealight name pos size_u size_v color (2 * p) True)
     = Inr [PyFloat (2 * (p * 100))]"
    using Cycles_arealight_transparent [of name pos size_u size_v color "2 * p"]
    by (simp only: mult.assoc)
  show ?thesis
    using Cycles_arealight_transparent [of name pos size_u size_v color p] twice opaque1 opaque2
    by blast
qed

theorem Cycles_arealight_strength_witness:
  "map_sum id (values_of ''s'')
     (Cycles_write_arealight ''lamp'' \<lparr>Base = Vector 0 0 3, Rotation = id\<rparr> 2 1 (RGB (PyFloat 1) (PyFloat 1) (PyFloat 1)) 10 True)
     = Inr [PyFloat 1000]
   \<and> map_sum id (values_of ''s'')
     (Cycles_write_arealight ''lamp'' \<lparr>Base = Vector 0 0 3, Rotation = id\<rparr> 2 1 (RGB (PyFloat 1) (PyFloat 1) (PyFloat 1)) 20 True)
     = Inr [PyFloat 2000]
   \<and> map_sum id (values_of ''s'')
     (Cycles_write_arealight ''lamp'' \<lparr>Base = Vector 0 0 3, Rotation = id\<rparr> 2 1 (RGB (PyFloat 1) (PyFloat 1) (PyFloat 1)) 10 False)
     = Inr [PyFloat 500]
   \<and> map_sum id (values_of ''s'')
     (Cycles_write_arealight ''lamp'' \<lparr>Base = Vector 0 0 3, Rotation = id\<rparr> 2 2 (RGB (PyFloat 1) (PyFloat 1) (PyFloat 1)) 10 False)
     = Inr [PyFloat 250]"
  using Cycles_arealight_strength [where name = "''lamp''" and pos = "\<lparr>Base = Vector 0 0 3, Rotation = id\<rparr>"
      and size_u = 2 and size_v = 1 and size_u' = 2 and size_v' = 2
      and color = "RGB (PyFloat 1) (PyFloat 1) (PyFloat 1)" and p = 10]
  by simp

section \<open>Properties of mesh serialization\<close>

lemma coords_append: "coords (f @ g) = coords f @ coords g"
  by (induction f rule: coords.induct) simp_all

lemma coords_str_join: "coords (str_join sep xs) = concat (map coords xs)"
  by (induction xs rule: induct_list012) (simp_all add: coords_append)

lemma values_of_str_join: "values_of k (str_join sep xs) = concat (map (values_of k) xs)"
  by (induction xs rule: induct_list012) (simp_all add: values_of_append)

lemma concat_map_Nil: "concat (map (\<lambda>x. []) xs) = []"
  by (induction xs) simp_all

lemma coords_Povray_vector: "coords (Povray_vector v) = [PyFloat (vx v), PyFloat (vz v), PyFloat (vy v)]"
  by (simp add: Povray_vector_def)

lemma coords_Cycles_point: "coords (Cycles_point v) = [PyFloat (vx v), PyFloat (vy v), PyFloat (vz v)]"
  by (simp add: Cycles_point_def)

lemma coords_face: "coords (Povray_face i) = []" "coords (Cycles_face i) = []"
  by (simp_all add: Povray_face_def Cycles_face_def split: prod.splits)

lemma values_of_Povray_vector: "k \<noteq> ''0.x'' \<Longrightarrow> k \<noteq> ''0.y'' \<Longrightarrow> k \<noteq> ''0.z'' \<Longrightarrow> values_of k (Povray_vector v) = []"
  by (simp add: Povray_vector_def)

lemma values_of_Povray_face: "k \<noteq> [] \<Longrightarrow> values_of k (Povray_face i) = []"
  by (simp add: Povray_face_def split: prod.splits)

lemma values_of_Cycles_face: "values_of [] (Cycles_face i) = (case i of (a, b, c) \<Rightarrow> [PyInt a, PyInt b, PyInt c])"
  by (simp add: Cycles_face_def split: prod.splits)

lemma values_of_Cycles_point: "values_of [] (Cycles_point v) = []"
  by (simp add: Cycles_point_def)

lemma Povray_object_counts:
  "values_of ''len_vertices'' (Povray_write_object name mesh color alpha)
     = [PyInt (int (length (fst (Topology mesh))))]"
  "values_of ''len_normals'' (Povray_write_object name mesh color alpha)
     = [PyInt (int (length (getPointNormals mesh)))]"
  "values_of ''len_indices'' (Povray_write_object name mesh color alpha)
     = [PyInt (int (length (snd (Topology mesh))))]"
  by (simp_all add: Povray_write_object_def Povray_snippet_obj_def Let_def values_of_append
        values_of_str_join values_of_Povray_vector values_of_Povray_face concat_map_Nil o_def)

lemma Povray_object_coords:
  "coords (Povray_write_object name mesh color alpha)
   = concat (map (\<lambda>v. [PyFloat (vx v), PyFloat (vz v), PyFloat (vy v)])
               (fst (Topology mesh) @ getPointNormals mesh))"
  by (simp add: Povray_write_object_def Povray_snippet_obj_def Let_def coords_append
        coords_str_join coords_Povray_vector coords_face concat_map_Nil o_def)

lemma Cycles_object_block_coords:
  "coords (Cycles_snippet_obj name (str_join ''  '' (map Cycles_point ps))
             (str_join ''  '' (replicate n [Lit ''3'']))
             (str_join ''  '' (map Cycles_face fs)))
   = concat (map (\<lambda>v. [PyFloat (vx v), PyFloat (vy v), PyFloat (vz v)]) ps)"
  by (simp add: Cycles_snippet_obj_def coords_append coords_str_join coords_Cycles_point
        coords_face concat_map_Nil o_def map_replicate_const)

lemma Cycles_object_block_indices:
  "values_of [] (Cycles_snippet_obj name (str_join ''  '' (map Cycles_point ps))
             (str_join ''  '' (replicate n [Lit ''3'']))
             (str_join ''  '' (map Cycles_face fs)))
   = concat (map (\<lambda>(a, b, c). [PyInt a, PyInt b, PyInt c]) fs)"
  by (simp add: Cycles_snippet_obj_def values_of_append values_of_str_join values_of_Cycles_face
        values_of_Cycles_point concat_map_Nil o_def map_replicate_const)

lemma Cycles_write_object_exec:
  assumes "Cycles_write_material fmt name material = (w, Inr mat)" "brace_free mat"
  shows "Cycles_write_object fmt refmt name mesh material
         = (w, Inr (mat @ Cycles_snippet_obj name
                      (str_join ''  '' (map Cycles_point (fst (Topology mesh))))
                      (str_join ''  '' (replicate (length (snd (Topology mesh))) [Lit ''3'']))
                      (str_join ''  '' (map Cycles_face (snd (Topology mesh))))))"
  using assms by (simp add: Cycles_write_object_def Let_def)

text \<open>
  C9, as the code has it. POV-Ray's \<^verbatim>\<open>write_object\<close> emits the numbers of vertices,
  normals and facets of the mesh, and every vertex and every normal with \<open>y\<close> and \<open>z\<close>
  swapped; for the empty mesh the three counts are zero and the three lists empty.
  Cycles' \<^verbatim>\<open>write_object\<close> emits no counts and no normals: when the material snippet
  is emitted and holds no brace, it is followed by the object block with every vertex
  in the order \<open>x\<close>, \<open>y\<close>, \<open>z\<close>, one \<open>3\<close> for each facet, and the facet indices.
\<close>

theorem write_object_serializes_mesh:
  "values_of ''len_vertices'' (Povray_write_object name mesh color alpha)
     = [PyInt (int (length (fst (Topology mesh))))]
   \<and> values_of ''len_normals'' (Povray_write_object name mesh color alpha)
     = [PyInt (int (length (getPointNormals mesh)))]
   \<and> values_of ''len_indices'' (Povray_write_object name mesh color alpha)
     = [PyInt (int (length (snd (Topology mesh))))]
   \<and> coords (Povray_write_object name mesh color alpha)
     = concat (map (\<lambda>v. [PyFloat (vx v), PyFloat (vz v), PyFloat (vy v)])
                 (fst (Topology mesh) @ getPointNormals mesh))
   \<and> Povray_write_object name \<lparr>Topology = ([], []), getPointNormals = []\<rparr> color alpha
     = Povray_snippet_obj name 0 [] 0 [] 0 []
         [Lit ''<'', Val '''' (chan_r color), Lit '','', Val '''' (chan_g color), Lit '','',
          Val '''' (chan_b color), Lit ''>'']
   \<and> (Cycles_write_material fmt name material = (w, Inr mat) \<and> brace_free mat \<longrightarrow>
        Cycles_write_object fmt refmt name mesh material
          = (w, Inr (mat @ Cycles_snippet_obj name
                       (str_join ''  '' (map Cycles_point (fst (Topology mesh))))
                       (str_join ''  '' (replicate (length (snd (Topology mesh))) [Lit ''3'']))
                       (str_join ''  '' (map Cycles_face (snd (Topology mesh))))))
        \<and> coords (Cycles_snippet_obj name
                       (str_join ''  '' (map Cycles_point (fst (Topology mesh))))
                       (str_join ''  '' (replicate (length (snd (Topology mesh))) [Lit ''3'']))
                       (str_join ''  '' (map Cycles_face (snd (Topology mesh)))))
          = concat (map (\<lambda>v. [PyFloat (vx v), PyFloat (vy v), PyFloat (vz v)]) (fst (Topology mesh)))
        \<and> values_of [] (Cycles_snippet_obj name
                       (str_join ''  '' (map Cycles_point (fst (Topology mesh))))
                       (str_join ''  '' (replicate (length (snd (Topology mesh))) [Lit ''3'']))
                       (str_join ''  '' (map Cycles_face (snd (Topology mesh)))))
          = concat (map (\<lambda>(a, b, c). [PyInt a, PyInt b, PyInt c]) (snd (Topology mesh))))"
proof -
  have empty: "Povray_write_object name \<lparr>Topology = ([], []), getPointNormals = []\<rparr> color alpha
     = Povray_snippet_obj name 0 [] 0 [] 0 []
         [Lit ''<'', Val '''' (chan_r color), Lit '','', Val '''' (chan_g color), Lit '','',
          Val '''' (chan_b color), Lit ''>'']"
    by (simp add: Povray_write_object_def)
  show ?thesis
    using Povray_object_counts [of name mesh color alpha] Povray_object_coords [of name mesh color alpha]
      empty Cycles_write_object_exec [of fmt name material w mat refmt mesh]
      Cycles_object_block_coords [of name "fst (Topology mesh)" "length (snd (Topology mesh))" "snd (Topology mesh)"]
      Cycles_object_block_indices [of name "fst (Topology mesh)" "length (snd (Topology mesh))" "snd (Topology mesh)"]
    by blast
qed

theorem write_object_serializes_mesh_witness:
  "Cycles_write_material (\<lambda>s n c. Inl ValueError) ''Cube''
     \<lparr>shadertype = ''Diffuse'', default_color = RGB (PyFloat 0.8) (PyFloat 0.8) (PyFloat 0.8),
      passthrough = None, glass = None, disney = None,
      diffuse = Some \<lparr>diffuse_color = RGB (PyFloat 0.5) (PyFloat 0.5) (PyFloat 0.5)\<rparr>, mixed = None\<rparr>
     = ([], Inr (Cycles_diffuse_snippet ''Cube'' (RGB (PyFloat 0.5) (PyFloat 0.5) (PyFloat 0.5))))
   \<and> brace_free (Cycles_diffuse_snippet ''Cube'' (RGB (PyFloat 0.5) (PyFloat 0.5) (PyFloat 0.5)))
   \<and> Cycles_write_object (\<lambda>s n c. Inl ValueError) (\<lambda>f n p i v. Inl ValueError) ''Cube''
       \<lparr>Topology = ([Vector 0 0 0, Vector 1 0 0, Vector 0 2 3], [(0, 1, 2)]),
        getPointNormals = [Vector 0 0 1, Vector 0 0 1, Vector 0 0 1]\<rparr>
       \<lparr>shadertype = ''Diffuse'', default_color = RGB (PyFloat 0.8) (PyFloat 0.8) (PyFloat 0.8),
        passthrough = None, glass = None, disney = None,
        diffuse = Some \<lparr>diffuse_color = RGB (PyFloat 0.5) (PyFloat 0.5) (PyFloat 0.5)\<rparr>, mixed = None\<rparr>
     = ([], Inr (Cycles_diffuse_snippet ''Cube'' (RGB (PyFloat 0.5) (PyFloat 0.5) (PyFloat 0.5))
                 @ Cycles_snippet_obj ''Cube''
                     (Cycles_point (Vector 0 0 0) @ [Lit ''  ''] @ Cycles_point (Vector 1 0 0)
                        @ [Lit ''  ''] @ Cycles_point (Vector 0 2 3))
                     [Lit ''3'']
                     (Cycles_face (0, 1, 2))))
   \<and> coords (Cycles_snippet_obj ''Cube''
                     (Cycles_point (Vector 0 0 0) @ [Lit ''  ''] @ Cycles_point (Vector 1 0 0)
                        @ [Lit ''  ''] @ Cycles_point (Vector 0 2 3))
                     [Lit ''3'']
                     (Cycles_face (0, 1, 2)))
     = [PyFloat 0, PyFloat 0, PyFloat 0, PyFloat 1, PyFloat 0, PyFloat 0, PyFloat 0, PyFloat 2, PyFloat 3]
   \<and> coords (Povray_write_object ''Cube''
       \<lparr>Topology = ([Vector 0 0 0, Vector 1 0 0, Vector 0 2 3], [(0, 1, 2)]),
        getPointNormals = [Vector 0 0 1, Vector 0 0 1, Vector 0 0 1]\<rparr>
       (RGB (PyFloat 0.5) (PyFloat 0.5) (PyFloat 0.5)) (PyFloat 1))
     = [PyFloat 0, PyFloat 0, PyFloat 0, PyFloat 1, PyFloat 0, PyFloat 0, PyFloat 0, PyFloat 3, PyFloat 2,
        PyFloat 0, PyFloat 1, PyFloat 0, PyFloat 0, PyFloat 1, PyFloat 0, PyFloat 0, PyFloat 1, PyFloat 0]"
  using write_object_serializes_mesh [where fmt = "\<lambda>s n c. Inl ValueError" and refmt = "\<lambda>f n p i v. Inl ValueError"
      and name = "''Cube''"
      and mesh = "\<lparr>Topology = ([Vector 0 0 0, Vector 1 0 0, Vector 0 2 3], [(0, 1, 2)]),
        getPointNormals = [Vector 0 0 1, Vector 0 0 1, Vector 0 0 1]\<rparr>"
      and material = "\<lparr>shadertype = ''Diffuse'', default_color = RGB (PyFloat 0.8) (PyFloat 0.8) (PyFloat 0.8),
        passthrough = None, glass = None, disney = None,
        diffuse = Some \<lparr>diffuse_color = RGB (PyFloat 0.5) (PyFloat 0.5) (PyFloat 0.5)\<rparr>, mixed = None\<rparr>"
      and w = "[]" and mat = "Cycles_diffuse_snippet ''Cube'' (RGB (PyFloat 0.5) (PyFloat 0.5) (PyFloat 0.5))"
      and color = "RGB (PyFloat 0.5) (PyFloat 0.5) (PyFloat 0.5)" and alpha = "PyFloat 1"]
  by (simp add: Cycles_write_material_def MATERIALS_def Cycles_write_material_diffuse_def
        Cycles_diffuse_snippet_def q_def)

text \<open>
  C9 as stated fails for Cycles. \<^verbatim>\<open>write_object\<close> fails on the empty mesh when the
  material is a Passthrough for another renderer; and for a mesh of five points and one
  facet the integers it emits are the three indices of the facet, no count among them.
\<close>

theorem Cycles_write_object_counterexample:
  "Cycles_write_object (\<lambda>s n c. Inl ValueError) (\<lambda>f n p i v. Inl ValueError) ''Cube''
     \<lparr>Topology = ([], []), getPointNormals = []\<rparr>
     \<lparr>shadertype = ''Passthrough'', default_color = RGB (PyFloat 0.8) (PyFloat 0.8) (PyFloat 0.8),
      passthrough = Some \<lparr>renderer = ''Povray'', passthrough_string = ''texture { pigment { color rgb <{c.r}, {c.g}, {c.b}> } }''\<rparr>,
      glass = None, disney = None, diffuse = None, mixed = None\<rparr>
   = ([], Inl AssertionError)
   \<and> map_sum id ints_of (snd (Cycles_write_object (\<lambda>s n c. Inl ValueError) (\<lambda>f n p i v. Inl ValueError) ''Cube''
       \<lparr>Topology = ([Vector 0 0 0, Vector 1 0 0, Vector 0 2 3, Vector 1 1 1, Vector 2 2 2], [(0, 2, 4)]),
        getPointNormals = [Vector 0 0 1, Vector 0 0 1, Vector 0 0 1, Vector 0 0 1, Vector 0 0 1]\<rparr>
       \<lparr>shadertype = ''Diffuse'', default_color = RGB (PyFloat 0.8) (PyFloat 0.8) (PyFloat 0.8),
        passthrough = None, glass = None, disney = None,
        diffuse = Some \<lparr>diffuse_color = RGB (PyFloat 0.5) (PyFloat 0.5) (PyFloat 0.5)\<rparr>, mixed = None\<rparr>))
     = Inr [0, 2, 4]"
  by (simp add: Cycles_write_object_def Cycles_write_material_def MATERIALS_def
        Cycles_write_material_passthrough_def Cycles_write_material_diffuse_def
        Cycles_diffuse_snippet_def Cycles_snippet_obj_def Cycles_point_def Cycles_face_def q_def)

end
